theory Spec2Isabelle
  imports Complex_Main
begin

section \<open>colmena.py: the shared hive state\<close>

text \<open>
  Python integers are \<open>int\<close>. Python floats (flower quality, role ratios, the draw of
  \<open>random.uniform\<close>) are modelled by exact rationals; NaN and the infinities are not
  values of the model, except for the \<open>float('inf')\<close> that the queen writes herself.
  A method of \<open>Colmena\<close> is a state transformer, and a method that returns a value returns
  it paired with the new state. The locks of the source are not modelled: what a method
  does is taken as one step, except for \<open>agregar_nectar_cola\<close>, which puts the batch on the
  queue before it takes the lock under which the batch is counted, so that other threads
  can run between its two halves.
  The random draws and the fresh identifiers (\<open>uuid4\<close>) are inputs of the functions.
\<close>

datatype excepcion = ValueError

text \<open>The messages put on \<open>queue_reina\<close> (dictionaries with a \<open>tipo\<close> key in the source).\<close>

datatype mensaje =
    Muerte string string            \<comment> \<open>rol, id\<close>
  | Inactiva string string int      \<comment> \<open>rol, id, intentos\<close>
  | Falta_alimento string string    \<comment> \<open>rol, id\<close>
  | Necesidad_nectar

text \<open>
  The keys of \<open>contador_global\<close> and of the per-bee statistics. \<open>Nectar_consumido\<close> is
  a key of the per-bee statistics only.
\<close>

datatype metrica =
    Nectar_recolectado | Nectar_almacenado | Ataques_detectados | Ataques_neutralizados
  | Cambios_rol | Flores_visitadas | Larvas_alimentadas | Nectar_consumido

record colmena =
  capacidad_celdas :: int
  capacidad_polen :: int
  celdas_ocupadas :: int
  num_larvas :: int
  larvas_alimentadas :: int
  queue_nectar :: "(int \<times> string) list"
  contador_global :: "metrica \<Rightarrow> int"
  estadisticas_abejas :: "string \<Rightarrow> metrica \<Rightarrow> int"
  semaforo_celdas :: int                      \<comment> \<open>the counter of the semaphore\<close>
  event_ataque :: bool
  event_dia :: bool
  event_lluvia :: bool
  event_fin_simulacion :: bool
  calidad_flores :: rat
  abejas_por_rol :: "(string \<times> int) list"   \<comment> \<open>\<open>defaultdict(int)\<close>, in insertion order\<close>
  queue_reina :: "mensaje list"

text \<open>\<open>threading.Semaphore(n)\<close> raises \<open>ValueError\<close> for a negative \<open>n\<close>.\<close>

definition colmena_nueva :: "int \<Rightarrow> int \<Rightarrow> int \<Rightarrow> colmena" where
  "colmena_nueva capacidad_celdas' capacidad_polen' num_larvas' =
     \<lparr> capacidad_celdas = capacidad_celdas',
       capacidad_polen = capacidad_polen',
       celdas_ocupadas = 0,
       num_larvas = num_larvas',
       larvas_alimentadas = 0,
       queue_nectar = [],
       contador_global = (\<lambda>_. 0),
       estadisticas_abejas = (\<lambda>_ _. 0),
       semaforo_celdas = capacidad_celdas',
       event_ataque = False,
       event_dia = True,
       event_lluvia = False,
       event_fin_simulacion = False,
       calidad_flores = 1,
       abejas_por_rol = [],
       queue_reina = [] \<rparr>"

definition Colmena_init :: "int \<Rightarrow> int \<Rightarrow> int \<Rightarrow> excepcion + colmena" where
  "Colmena_init capacidad_celdas' capacidad_polen' num_larvas' =
     (if capacidad_celdas' < 0 then Inl ValueError
      else Inr (colmena_nueva capacidad_celdas' capacidad_polen' num_larvas'))"

text \<open>\<open>d[k] += v\<close> on a \<open>defaultdict(int)\<close>: a missing key is created with \<open>0 + v\<close>.\<close>

fun dd_sumar :: "(string \<times> int) list \<Rightarrow> string \<Rightarrow> int \<Rightarrow> (string \<times> int) list" where
  "dd_sumar [] k v = [(k, v)]"
| "dd_sumar ((k', w) # d) k v =
     (if k' = k then (k', w + v) # d else (k', w) # dd_sumar d k v)"

text \<open>\<open>d.get(k, 0)\<close>.\<close>

definition dd_get :: "(string \<times> int) list \<Rightarrow> string \<Rightarrow> int" where
  "dd_get d k = (case map_of d k of None \<Rightarrow> 0 | Some v \<Rightarrow> v)"

text \<open>\<open>c[k] += v\<close> on the counter dictionaries.\<close>

definition incr :: "('k \<Rightarrow> int) \<Rightarrow> 'k \<Rightarrow> int \<Rightarrow> ('k \<Rightarrow> int)" where
  "incr c k v = c(k := c k + v)"

definition incr_abeja ::
  "(string \<Rightarrow> metrica \<Rightarrow> int) \<Rightarrow> string \<Rightarrow> metrica \<Rightarrow> int \<Rightarrow> (string \<Rightarrow> metrica \<Rightarrow> int)" where
  "incr_abeja e i k v = e(i := incr (e i) k v)"

definition registrar_abeja :: "string \<Rightarrow> string \<Rightarrow> colmena \<Rightarrow> colmena" where
  "registrar_abeja id_abeja rol s = s\<lparr>abejas_por_rol := dd_sumar (abejas_por_rol s) rol 1\<rparr>"

definition cambiar_rol_abeja :: "string \<Rightarrow> string \<Rightarrow> colmena \<Rightarrow> colmena" where
  "cambiar_rol_abeja rol_anterior rol_nuevo s =
     s\<lparr>abejas_por_rol := dd_sumar (dd_sumar (abejas_por_rol s) rol_anterior (- 1)) rol_nuevo 1,
       contador_global := incr (contador_global s) Cambios_rol 1\<rparr>"

definition obtener_distribucion_roles :: "colmena \<Rightarrow> (string \<times> int) list" where
  "obtener_distribucion_roles s = abejas_por_rol s"

text \<open>
  \<open>agregar_nectar_cola\<close> in its two halves: \<open>queue_nectar.put\<close>, and then the block under
  \<open>lock_estadisticas\<close> that counts the batch.
\<close>

definition poner_en_cola :: "int \<Rightarrow> string \<Rightarrow> colmena \<Rightarrow> colmena" where
  "poner_en_cola cantidad id_abeja s =
     s\<lparr>queue_nectar := queue_nectar s @ [(cantidad, id_abeja)]\<rparr>"

definition contar_nectar :: "int \<Rightarrow> string \<Rightarrow> colmena \<Rightarrow> colmena" where
  "contar_nectar cantidad id_abeja s =
     s\<lparr>contador_global := incr (contador_global s) Nectar_recolectado cantidad,
       estadisticas_abejas :=
         incr_abeja (estadisticas_abejas s) id_abeja Nectar_recolectado cantidad\<rparr>"

definition agregar_nectar_cola :: "int \<Rightarrow> string \<Rightarrow> colmena \<Rightarrow> colmena" where
  "agregar_nectar_cola cantidad id_abeja s =
     contar_nectar cantidad id_abeja (poner_en_cola cantidad id_abeja s)"

definition obtener_nectar_cola :: "colmena \<Rightarrow> (int \<times> string) option \<times> colmena" where
  "obtener_nectar_cola s =
     (case queue_nectar s of
        [] \<Rightarrow> (None, s)
      | x # xs \<Rightarrow> (Some x, s\<lparr>queue_nectar := xs\<rparr>))"

definition almacenar_nectar :: "int \<Rightarrow> string \<Rightarrow> colmena \<Rightarrow> bool \<times> colmena" where
  "almacenar_nectar cantidad id_abeja s =
     (if 0 < semaforo_celdas s then
        (True, s\<lparr>semaforo_celdas := semaforo_celdas s - 1,
                 celdas_ocupadas := celdas_ocupadas s + 1,
                 contador_global := incr (contador_global s) Nectar_almacenado cantidad,
                 estadisticas_abejas :=
                   incr_abeja (estadisticas_abejas s) id_abeja Nectar_almacenado cantidad\<rparr>)
      else (False, s))"

definition consumir_nectar :: "string \<Rightarrow> colmena \<Rightarrow> bool \<times> colmena" where
  "consumir_nectar id_abeja s =
     (if 0 < celdas_ocupadas s then
        (True, s\<lparr>celdas_ocupadas := celdas_ocupadas s - 1,
                 semaforo_celdas := semaforo_celdas s + 1,
                 estadisticas_abejas :=
                   incr_abeja (estadisticas_abejas s) id_abeja Nectar_consumido 1\<rparr>)
      else (False, s))"

definition alimentar_larva :: "string \<Rightarrow> colmena \<Rightarrow> bool \<times> colmena" where
  "alimentar_larva id_abeja s =
     (case consumir_nectar id_abeja s of
        (True, s1) \<Rightarrow>
          if larvas_alimentadas s1 < num_larvas s1 then
            (True, s1\<lparr>larvas_alimentadas := larvas_alimentadas s1 + 1,
                      contador_global := incr (contador_global s1) Larvas_alimentadas 1,
                      estadisticas_abejas :=
                        incr_abeja (estadisticas_abejas s1) id_abeja Larvas_alimentadas 1\<rparr>)
          else (False, s1)
      | (False, s1) \<Rightarrow> (False, s1))"

text \<open>Python's \<open>round\<close> of a float to an integer: to the nearest, ties to the even one.\<close>

definition py_round :: "rat \<Rightarrow> int" where
  "py_round x =
     (let f = \<lfloor>x\<rfloor>; d = x - of_int f
      in if d < 1 / 2 then f else if 1 / 2 < d then f + 1 else if even f then f else f + 1)"

text \<open>\<open>uniforme\<close> is the value drawn by \<open>random.uniform(1, capacidad_polen)\<close>.\<close>

definition visitar_flor :: "rat \<Rightarrow> string \<Rightarrow> colmena \<Rightarrow> int \<times> colmena" where
  "visitar_flor uniforme id_abeja s =
     (if \<not> event_dia s then (0, s)
      else
        let calidad = calidad_flores s;
            polen_recolectado = min (py_round (uniforme * calidad)) (capacidad_polen s)
        in (max 0 polen_recolectado,
            s\<lparr>contador_global := incr (contador_global s) Flores_visitadas 1,
              estadisticas_abejas :=
                incr_abeja (estadisticas_abejas s) id_abeja Flores_visitadas 1\<rparr>))"

definition registrar_ataque :: "colmena \<Rightarrow> colmena" where
  "registrar_ataque s =
     s\<lparr>event_ataque := True,
       contador_global := incr (contador_global s) Ataques_detectados 1\<rparr>"

definition neutralizar_ataque :: "string \<Rightarrow> colmena \<Rightarrow> colmena" where
  "neutralizar_ataque id_abeja s =
     s\<lparr>event_ataque := False,
       contador_global := incr (contador_global s) Ataques_neutralizados 1,
       estadisticas_abejas :=
         incr_abeja (estadisticas_abejas s) id_abeja Ataques_neutralizados 1\<rparr>"

definition cambiar_clima :: "bool \<Rightarrow> rat \<Rightarrow> colmena \<Rightarrow> colmena" where
  "cambiar_clima lluvia calidad_flores' s =
     s\<lparr>event_lluvia := lluvia, calidad_flores := calidad_flores'\<rparr>"

definition cambiar_ciclo_dia :: "bool \<Rightarrow> colmena \<Rightarrow> colmena" where
  "cambiar_ciclo_dia es_dia s = s\<lparr>event_dia := es_dia\<rparr>"

definition enviar_mensaje_reina :: "mensaje \<Rightarrow> colmena \<Rightarrow> colmena" where
  "enviar_mensaje_reina m s = s\<lparr>queue_reina := queue_reina s @ [m]\<rparr>"

text \<open>The receive with a timeout, taken at one instant: the head of the queue, or nothing.\<close>

definition obtener_mensaje_reina :: "colmena \<Rightarrow> mensaje option \<times> colmena" where
  "obtener_mensaje_reina s =
     (case queue_reina s of
        [] \<Rightarrow> (None, s)
      | m # ms \<Rightarrow> (Some m, s\<lparr>queue_reina := ms\<rparr>))"

text \<open>The hive states that calls of the methods of \<open>Colmena\<close> can produce, in any order
  and with any arguments, from a hive that the constructor accepts. The two halves of
  \<open>agregar_nectar_cola\<close> are steps of their own.\<close>

inductive_set alcanzable :: "colmena set" where
  inicial: "Colmena_init c p n = Inr s \<Longrightarrow> s \<in> alcanzable"
| registrar: "s \<in> alcanzable \<Longrightarrow> registrar_abeja i r s \<in> alcanzable"
| cambiar_rol: "s \<in> alcanzable \<Longrightarrow> cambiar_rol_abeja r r' s \<in> alcanzable"
| poner: "s \<in> alcanzable \<Longrightarrow> poner_en_cola k i s \<in> alcanzable"
| contar: "s \<in> alcanzable \<Longrightarrow> contar_nectar k i s \<in> alcanzable"
| obtener: "s \<in> alcanzable \<Longrightarrow> snd (obtener_nectar_cola s) \<in> alcanzable"
| almacenar: "s \<in> alcanzable \<Longrightarrow> snd (almacenar_nectar k i s) \<in> alcanzable"
| consumir: "s \<in> alcanzable \<Longrightarrow> snd (consumir_nectar i s) \<in> alcanzable"
| alimentar: "s \<in> alcanzable \<Longrightarrow> snd (alimentar_larva i s) \<in> alcanzable"
| visitar: "s \<in> alcanzable \<Longrightarrow> snd (visitar_flor u i s) \<in> alcanzable"
| ataque: "s \<in> alcanzable \<Longrightarrow> registrar_ataque s \<in> alcanzable"
| neutralizar: "s \<in> alcanzable \<Longrightarrow> neutralizar_ataque i s \<in> alcanzable"
| ataque_expira: "s \<in> alcanzable \<Longrightarrow> s\<lparr>event_ataque := False\<rparr> \<in> alcanzable"
| clima: "s \<in> alcanzable \<Longrightarrow> cambiar_clima l q s \<in> alcanzable"
| ciclo_dia: "s \<in> alcanzable \<Longrightarrow> cambiar_ciclo_dia d s \<in> alcanzable"
| enviar: "s \<in> alcanzable \<Longrightarrow> enviar_mensaje_reina m s \<in> alcanzable"
| recibir: "s \<in> alcanzable \<Longrightarrow> snd (obtener_mensaje_reina s) \<in> alcanzable"
| fin: "s \<in> alcanzable \<Longrightarrow> s\<lparr>event_fin_simulacion := True\<rparr> \<in> alcanzable"

text \<open>Sequential calls of \<open>almacenar_nectar\<close> and of \<open>alimentar_larva\<close>, one per argument.\<close>

fun almacenar_sec :: "(int \<times> string) list \<Rightarrow> colmena \<Rightarrow> bool list \<times> colmena" where
  "almacenar_sec [] s = ([], s)"
| "almacenar_sec ((k, i) # args) s =
     (let (b, s1) = almacenar_nectar k i s; (bs, s2) = almacenar_sec args s1 in (b # bs, s2))"

fun alimentar_sec :: "string list \<Rightarrow> colmena \<Rightarrow> bool list \<times> colmena" where
  "alimentar_sec [] s = ([], s)"
| "alimentar_sec (i # ids) s =
     (let (b, s1) = alimentar_larva i s; (bs, s2) = alimentar_sec ids s1 in (b # bs, s2))"

section \<open>agentes.py: the bees and the queen\<close>

text \<open>
  A bee is a thread object. \<open>viva\<close> says that the thread has not yet left \<open>run\<close>; it is
  set when the object is built, since every bee of the program is started right after
  its construction. \<open>por_contar\<close> is the place of a forager's thread inside
  \<open>agregar_nectar_cola\<close>: the batch it has put on the queue and not yet counted, if any.
  Time is not modelled: a bee may leave its loop at any moment (its lifespan has elapsed,
  the simulation has ended, or its work raised).
\<close>

record abeja =
  id_abeja :: string
  rol :: string
  activa :: bool
  viva :: bool

datatype clase = Recolectora | Almacenadora | Nodriza | Defensora

record obrera = abeja +
  clase :: clase
  intentos_vacios :: int
  intentos_sin_alimento :: int
  por_contar :: "int option"

text \<open>
  \<open>abejas_activas\<close> maps an identifier to a reference to a bee object: the position of
  the object in \<open>obreras\<close>, the list of all worker objects ever built.
\<close>

record reina = abeja +
  equilibrio_ideal :: "(string \<times> rat) list"
  abejas_activas :: "(string \<times> nat) list"

record sistema =
  colmena :: colmena
  obreras :: "obrera list"
  reina :: reina

fun rol_de :: "clase \<Rightarrow> string" where
  "rol_de Recolectora = ''recolectora''"
| "rol_de Almacenadora = ''almacenadora''"
| "rol_de Nodriza = ''nodriza''"
| "rol_de Defensora = ''defensora''"

definition fabrica_abejas :: "string \<Rightarrow> clase option" where
  "fabrica_abejas r =
     (if r = ''recolectora'' then Some Recolectora
      else if r = ''almacenadora'' then Some Almacenadora
      else if r = ''nodriza'' then Some Nodriza
      else if r = ''defensora'' then Some Defensora
      else None)"

definition equilibrio_por_defecto :: "(string \<times> rat) list" where
  "equilibrio_por_defecto =
     [(''recolectora'', 2 / 5), (''almacenadora'', 1 / 4), (''nodriza'', 1 / 4),
      (''defensora'', 1 / 10)]"

text \<open>\<open>d[k] = v\<close> and \<open>del d[k]\<close> on a dictionary kept in insertion order.\<close>

fun dict_poner :: "(string \<times> 'v) list \<Rightarrow> string \<Rightarrow> 'v \<Rightarrow> (string \<times> 'v) list" where
  "dict_poner [] k v = [(k, v)]"
| "dict_poner ((k', w) # d) k v =
     (if k' = k then (k', v) # d else (k', w) # dict_poner d k v)"

definition dict_quitar :: "(string \<times> 'v) list \<Rightarrow> string \<Rightarrow> (string \<times> 'v) list" where
  "dict_quitar d k = filter (\<lambda>(k', _). k' \<noteq> k) d"

text \<open>The constructor of a worker class: \<open>Abeja.__init__\<close> registers the bee in the hive.
  It returns the reference to the new object.\<close>

definition nueva_obrera :: "clase \<Rightarrow> string \<Rightarrow> obrera" where
  "nueva_obrera c i =
     \<lparr> id_abeja = i, rol = rol_de c, activa = True, viva = True,
       clase = c, intentos_vacios = 0, intentos_sin_alimento = 0, por_contar = None \<rparr>"

definition construir :: "clase \<Rightarrow> string \<Rightarrow> sistema \<Rightarrow> nat \<times> sistema" where
  "construir c i S =
     (length (obreras S),
      S\<lparr>colmena := registrar_abeja i (rol_de c) (colmena S),
        obreras := obreras S @ [nueva_obrera c i]\<rparr>)"

text \<open>\<open>Reina(colmena, equilibrio_ideal)\<close>: an absent or empty table gives the default one.\<close>

definition Reina_init :: "colmena \<Rightarrow> (string \<times> rat) list \<Rightarrow> string \<Rightarrow> sistema" where
  "Reina_init s eq i =
     \<lparr> colmena = registrar_abeja i ''reina'' s,
       obreras = [],
       reina = \<lparr> id_abeja = i, rol = ''reina'', activa = True, viva = True,
                 equilibrio_ideal = (if eq = [] then equilibrio_por_defecto else eq),
                 abejas_activas = [] \<rparr> \<rparr>"

definition agregar_abeja :: "nat \<Rightarrow> sistema \<Rightarrow> sistema" where
  "agregar_abeja ref S =
     S\<lparr>reina := (reina S)\<lparr>abejas_activas :=
          dict_poner (abejas_activas (reina S)) (id_abeja (obreras S ! ref)) ref\<rparr>\<rparr>"

definition cambiar_rol :: "nat \<Rightarrow> string \<Rightarrow> sistema \<Rightarrow> sistema" where
  "cambiar_rol ref nuevo_rol S =
     (let rol_anterior = rol (obreras S ! ref)
      in S\<lparr>obreras := (obreras S)[ref := (obreras S ! ref)\<lparr>rol := nuevo_rol\<rparr>],
           colmena := cambiar_rol_abeja rol_anterior nuevo_rol (colmena S)\<rparr>)"

definition crear_abeja :: "string \<Rightarrow> string \<Rightarrow> sistema \<Rightarrow> nat option \<times> sistema" where
  "crear_abeja r nuevo_id S =
     (case fabrica_abejas r of
        Some c \<Rightarrow> (let (ref, S1) = construir c nuevo_id S in (Some ref, agregar_abeja ref S1))
      | None \<Rightarrow> (None, S))"

definition reemplazar_abeja_muerta :: "string \<Rightarrow> string \<Rightarrow> sistema \<Rightarrow> nat option \<times> sistema" where
  "reemplazar_abeja_muerta r nuevo_id S = crear_abeja r nuevo_id S"

definition calcular_roles_ideales :: "(string \<times> rat) list \<Rightarrow> int \<Rightarrow> (string \<times> int) list" where
  "calcular_roles_ideales eq total_abejas =
     map (\<lambda>(r, porcentaje). (r, py_round (of_int total_abejas * porcentaje))) eq"

text \<open>A deviation: a finite number, or the \<open>float('inf')\<close> of a role whose ideal is 0.\<close>

datatype desv = Fin rat | Inf

fun desv_lt :: "desv \<Rightarrow> desv \<Rightarrow> bool" where
  "desv_lt (Fin a) (Fin b) = (a < b)"
| "desv_lt (Fin a) Inf = True"
| "desv_lt Inf _ = False"

definition diferencia :: "int \<Rightarrow> int \<Rightarrow> desv" where
  "diferencia ideal actual =
     (if ideal = 0 then (if 0 < actual then Inf else Fin 0)
      else Fin (of_int (actual - ideal) / of_int ideal))"

definition diferencias :: "(string \<times> rat) list \<Rightarrow> (string \<times> int) list \<Rightarrow> (string \<times> desv) list" where
  "diferencias eq distribucion_actual =
     (let total_abejas = sum_list (map snd distribucion_actual);
          roles_ideales = calcular_roles_ideales eq total_abejas
      in map (\<lambda>(r, _). (r, diferencia (dd_get roles_ideales r) (dd_get distribucion_actual r))) eq)"

text \<open>
  \<open>max(d, key=d.get)\<close> and \<open>min(d, key=d.get)\<close>: the first key, in the order of the
  dictionary, whose value is the largest (the smallest). On an empty dictionary Python
  raises \<open>ValueError\<close>, here \<open>None\<close>.
\<close>

fun mejor :: "(desv \<Rightarrow> desv \<Rightarrow> bool) \<Rightarrow> string \<times> desv \<Rightarrow> (string \<times> desv) list \<Rightarrow> string \<times> desv" where
  "mejor lt b [] = b"
| "mejor lt b (x # xs) = mejor lt (if lt (snd b) (snd x) then x else b) xs"

definition py_max :: "(string \<times> desv) list \<Rightarrow> (string \<times> desv) option" where
  "py_max d = (case d of [] \<Rightarrow> None | x # xs \<Rightarrow> Some (mejor desv_lt x xs))"

definition py_min :: "(string \<times> desv) list \<Rightarrow> (string \<times> desv) option" where
  "py_min d = (case d of [] \<Rightarrow> None | x # xs \<Rightarrow> Some (mejor (\<lambda>a b. desv_lt b a) x xs))"

definition identificar_desequilibrio :: "sistema \<Rightarrow> excepcion + string option \<times> string option" where
  "identificar_desequilibrio S =
     (let distribucion_actual = obtener_distribucion_roles (colmena S);
          total_abejas = sum_list (map snd distribucion_actual)
      in if total_abejas = 0 then Inr (None, None)
         else
           let difs = diferencias (equilibrio_ideal (reina S)) distribucion_actual
           in case (py_max difs, py_min difs) of
                (Some (rol_excedente, d_exc), Some (rol_deficiente, d_def)) \<Rightarrow>
                  if desv_lt (Fin (1 / 10)) d_exc \<and> desv_lt d_def (Fin (- (1 / 10)))
                  then Inr (Some rol_excedente, Some rol_deficiente)
                  else Inr (None, None)
              | _ \<Rightarrow> Inl ValueError)"

text \<open>The truth value of a result of \<open>identificar_desequilibrio\<close>: \<open>None\<close> and the empty
  string are false.\<close>

fun verdadero :: "string option \<Rightarrow> bool" where
  "verdadero None = False"
| "verdadero (Some r) = (r \<noteq> [])"

definition reasignar_roles :: "sistema \<Rightarrow> excepcion + bool \<times> sistema" where
  "reasignar_roles S =
     (case identificar_desequilibrio S of
        Inl e \<Rightarrow> Inl e
      | Inr (rol_excedente, rol_deficiente) \<Rightarrow>
          if verdadero rol_excedente \<and> verdadero rol_deficiente then
            (case find (\<lambda>(i, ref). Some (rol (obreras S ! ref)) = rol_excedente)
                       (abejas_activas (reina S)) of
               Some (i, ref) \<Rightarrow>
                 (case rol_deficiente of
                    Some r \<Rightarrow> Inr (True, cambiar_rol ref r S)
                  | None \<Rightarrow> Inr (False, S))
             | None \<Rightarrow> Inr (False, S))
          else Inr (False, S))"

definition procesar_mensaje :: "mensaje \<Rightarrow> string \<Rightarrow> sistema \<Rightarrow> sistema" where
  "procesar_mensaje m nuevo_id S =
     (case m of
        Muerte r i \<Rightarrow>
          (let S1 = (if map_of (abejas_activas (reina S)) i \<noteq> None
                     then S\<lparr>reina := (reina S)\<lparr>abejas_activas :=
                            dict_quitar (abejas_activas (reina S)) i\<rparr>\<rparr>
                     else S)
           in snd (reemplazar_abeja_muerta r nuevo_id S1))
      | Inactiva r i n \<Rightarrow>
          if r = ''almacenadora'' then
            (if 0 < contador_global (colmena S) Nectar_recolectado then
               (case map_of (abejas_activas (reina S)) i of
                  Some ref \<Rightarrow> cambiar_rol ref ''recolectora'' S
                | None \<Rightarrow> S)
             else S)
          else S
      | Falta_alimento r i \<Rightarrow>
          if r = ''nodriza''
          then S\<lparr>colmena := enviar_mensaje_reina Necesidad_nectar (colmena S)\<rparr>
          else S
      | Necesidad_nectar \<Rightarrow> S)"

text \<open>
  \<open>Reina.trabajar\<close>. \<open>azar1\<close> and \<open>azar2\<close> are the two draws of \<open>random.random()\<close>; reading
  the metrics changes nothing. The result is the exception raised, if any, and the
  state at that point.
\<close>

definition trabajar_reina :: "rat \<Rightarrow> rat \<Rightarrow> string \<Rightarrow> sistema \<Rightarrow> excepcion option \<times> sistema" where
  "trabajar_reina azar1 azar2 nuevo_id S =
     (let (mensaje, c1) = obtener_mensaje_reina (colmena S);
          S1 = S\<lparr>colmena := c1\<rparr>;
          S2 = (case mensaje of Some m \<Rightarrow> procesar_mensaje m nuevo_id S1 | None \<Rightarrow> S1)
      in if azar1 < 1 / 5 then
           (case reasignar_roles S2 of
              Inl e \<Rightarrow> (Some e, S2)
            | Inr (_, S3) \<Rightarrow> (None, S3))
         else (None, S2))"

text \<open>The work unit of each worker class, on the bee object at \<open>ref\<close>.\<close>

text \<open>
  \<open>Recolectora.trabajar\<close> in the two parts that the halves of \<open>agregar_nectar_cola\<close> give:
  up to the queue put, and the count of the batch.
\<close>

definition recolectar :: "rat \<Rightarrow> nat \<Rightarrow> sistema \<Rightarrow> sistema" where
  "recolectar uniforme ref S =
     (let a = obreras S ! ref;
          (polen, c1) = visitar_flor uniforme (id_abeja a) (colmena S)
      in if 0 < polen then
           S\<lparr>colmena := poner_en_cola polen (id_abeja a) c1,
             obreras := (obreras S)[ref := a\<lparr>por_contar := Some polen\<rparr>]\<rparr>
         else S\<lparr>colmena := c1\<rparr>)"

definition contar :: "nat \<Rightarrow> sistema \<Rightarrow> sistema" where
  "contar ref S =
     (let a = obreras S ! ref
      in case por_contar a of
           Some polen \<Rightarrow>
             S\<lparr>colmena := contar_nectar polen (id_abeja a) (colmena S),
               obreras := (obreras S)[ref := a\<lparr>por_contar := None\<rparr>]\<rparr>
         | None \<Rightarrow> S)"

definition trabajar_recolectora :: "rat \<Rightarrow> nat \<Rightarrow> sistema \<Rightarrow> sistema" where
  "trabajar_recolectora uniforme ref S = contar ref (recolectar uniforme ref S)"

definition trabajar_almacenadora :: "nat \<Rightarrow> sistema \<Rightarrow> sistema" where
  "trabajar_almacenadora ref S =
     (let a = obreras S ! ref;
          (resultado, c1) = obtener_nectar_cola (colmena S)
      in case resultado of
           Some (cantidad, id_origen) \<Rightarrow>
             S\<lparr>colmena := snd (almacenar_nectar cantidad (id_abeja a) c1),
               obreras := (obreras S)[ref := a\<lparr>intentos_vacios := 0\<rparr>]\<rparr>
         | None \<Rightarrow>
             (let n = intentos_vacios a + 1
              in if 10 < n then
                   S\<lparr>colmena := enviar_mensaje_reina (Inactiva (rol a) (id_abeja a) n) c1,
                     obreras := (obreras S)[ref := a\<lparr>intentos_vacios := 0\<rparr>]\<rparr>
                 else
                   S\<lparr>colmena := c1,
                     obreras := (obreras S)[ref := a\<lparr>intentos_vacios := n\<rparr>]\<rparr>))"

definition trabajar_nodriza :: "nat \<Rightarrow> sistema \<Rightarrow> sistema" where
  "trabajar_nodriza ref S =
     (let a = obreras S ! ref;
          (ok, c1) = alimentar_larva (id_abeja a) (colmena S)
      in if ok then
           S\<lparr>colmena := c1, obreras := (obreras S)[ref := a\<lparr>intentos_sin_alimento := 0\<rparr>]\<rparr>
         else
           (let n = intentos_sin_alimento a + 1
            in if 5 < n then
                 S\<lparr>colmena := enviar_mensaje_reina (Falta_alimento (rol a) (id_abeja a)) c1,
                   obreras := (obreras S)[ref := a\<lparr>intentos_sin_alimento := 0\<rparr>]\<rparr>
               else
                 S\<lparr>colmena := c1,
                   obreras := (obreras S)[ref := a\<lparr>intentos_sin_alimento := n\<rparr>]\<rparr>))"

definition trabajar_defensora :: "nat \<Rightarrow> sistema \<Rightarrow> sistema" where
  "trabajar_defensora ref S =
     (let a = obreras S ! ref
      in if event_ataque (colmena S)
         then S\<lparr>colmena := neutralizar_ataque (id_abeja a) (colmena S)\<rparr>
         else S)"

text \<open>The method \<open>trabajar\<close> is chosen by the class of the object, not by its \<open>rol\<close>.\<close>

definition trabajar :: "rat \<Rightarrow> nat \<Rightarrow> sistema \<Rightarrow> sistema" where
  "trabajar uniforme ref S =
     (case clase (obreras S ! ref) of
        Recolectora \<Rightarrow> trabajar_recolectora uniforme ref S
      | Almacenadora \<Rightarrow> trabajar_almacenadora ref S
      | Nodriza \<Rightarrow> trabajar_nodriza ref S
      | Defensora \<Rightarrow> trabajar_defensora ref S)"

text \<open>
  What a thread does of \<open>trabajar\<close> before other threads can run: a forager stops after
  the queue put and counts its batch in a later step, every other work unit is one step.
\<close>

definition paso_trabajar :: "rat \<Rightarrow> nat \<Rightarrow> sistema \<Rightarrow> sistema" where
  "paso_trabajar uniforme ref S =
     (case clase (obreras S ! ref) of
        Recolectora \<Rightarrow> recolectar uniforme ref S
      | Almacenadora \<Rightarrow> trabajar_almacenadora ref S
      | Nodriza \<Rightarrow> trabajar_nodriza ref S
      | Defensora \<Rightarrow> trabajar_defensora ref S)"

text \<open>
  \<open>Abeja.run\<close>. \<open>sigue\<close> is the part of the loop condition that the state decides,
  \<open>ciclo\<close> is one iteration of the loop of a worker up to the end of that first step, and
  \<open>al_salir\<close> is what the \<open>finally\<close> block does to the hive when the bee \<open>a\<close> leaves
  \<open>run\<close>.
\<close>

definition sigue :: "'a abeja_scheme \<Rightarrow> colmena \<Rightarrow> bool" where
  "sigue a s = (viva a \<and> activa a \<and> \<not> event_fin_simulacion s)"

definition descansa :: "'a abeja_scheme \<Rightarrow> colmena \<Rightarrow> bool" where
  "descansa a s = (\<not> event_dia s \<and> rol a \<noteq> ''defensora'')"

definition ciclo :: "rat \<Rightarrow> nat \<Rightarrow> sistema \<Rightarrow> sistema" where
  "ciclo uniforme ref S =
     (if descansa (obreras S ! ref) (colmena S) then S else paso_trabajar uniforme ref S)"

definition al_salir :: "'a abeja_scheme \<Rightarrow> colmena \<Rightarrow> colmena" where
  "al_salir a s =
     (if \<not> event_fin_simulacion s
      then enviar_mensaje_reina (Muerte (rol a) (id_abeja a)) s
      else s)"

definition salir :: "nat \<Rightarrow> sistema \<Rightarrow> sistema" where
  "salir ref S =
     S\<lparr>colmena := al_salir (obreras S ! ref) (colmena S),
       obreras := (obreras S)[ref := (obreras S ! ref)\<lparr>viva := False\<rparr>]\<rparr>"

definition salir_reina :: "sistema \<Rightarrow> sistema" where
  "salir_reina S =
     S\<lparr>colmena := al_salir (reina S) (colmena S),
       reina := (reina S)\<lparr>viva := False\<rparr>\<rparr>"

text \<open>One iteration of the loop of the queen; an exception ends \<open>run\<close>.\<close>

definition ciclo_reina :: "rat \<Rightarrow> rat \<Rightarrow> string \<Rightarrow> sistema \<Rightarrow> sistema" where
  "ciclo_reina azar1 azar2 nuevo_id S =
     (if descansa (reina S) (colmena S) then S
      else case trabajar_reina azar1 azar2 nuevo_id S of
             (None, S1) \<Rightarrow> S1
           | (Some e, S1) \<Rightarrow> salir_reina S1)"

text \<open>The number of bees whose thread has not ended, and the sum of the census.\<close>

definition vivas :: "sistema \<Rightarrow> nat" where
  "vivas S = length (filter viva (obreras S)) + (if viva (reina S) then 1 else 0)"

definition censo_total :: "sistema \<Rightarrow> int" where
  "censo_total S = sum_list (map snd (obtener_distribucion_roles (colmena S)))"

text \<open>
  The states of a run of the program: \<open>main\<close> builds the hive and the queen, then builds,
  starts and registers the workers; afterwards the bees, the queen and the environment
  threads of \<open>eventos.py\<close> take steps in any order. A forager that has put a batch on the
  queue is inside \<open>trabajar\<close>: its next step is the count of the batch, and it neither
  starts another iteration nor leaves \<open>run\<close> before.
\<close>

inductive_set sistemas :: "sistema set" where
  arranque: "Colmena_init c p n = Inr s \<Longrightarrow> Reina_init s eq i \<in> sistemas"
| poblar: "S \<in> sistemas \<Longrightarrow> construir c i S = (ref, S1) \<Longrightarrow> agregar_abeja ref S1 \<in> sistemas"
| ciclo_obrera:
    "S \<in> sistemas \<Longrightarrow> ref < length (obreras S) \<Longrightarrow> sigue (obreras S ! ref) (colmena S) \<Longrightarrow>
       por_contar (obreras S ! ref) = None \<Longrightarrow> ciclo u ref S \<in> sistemas"
| cuenta_obrera:
    "S \<in> sistemas \<Longrightarrow> ref < length (obreras S) \<Longrightarrow> por_contar (obreras S ! ref) = Some k \<Longrightarrow>
       contar ref S \<in> sistemas"
| fin_obrera:
    "S \<in> sistemas \<Longrightarrow> ref < length (obreras S) \<Longrightarrow> viva (obreras S ! ref) \<Longrightarrow>
       por_contar (obreras S ! ref) = None \<Longrightarrow> salir ref S \<in> sistemas"
| ciclo_de_reina:
    "S \<in> sistemas \<Longrightarrow> sigue (reina S) (colmena S) \<Longrightarrow> ciclo_reina a1 a2 i S \<in> sistemas"
| fin_reina: "S \<in> sistemas \<Longrightarrow> viva (reina S) \<Longrightarrow> salir_reina S \<in> sistemas"
| evento_clima: "S \<in> sistemas \<Longrightarrow> S\<lparr>colmena := cambiar_clima l q (colmena S)\<rparr> \<in> sistemas"
| evento_dia: "S \<in> sistemas \<Longrightarrow> S\<lparr>colmena := cambiar_ciclo_dia d (colmena S)\<rparr> \<in> sistemas"
| evento_ataque: "S \<in> sistemas \<Longrightarrow> S\<lparr>colmena := registrar_ataque (colmena S)\<rparr> \<in> sistemas"
| evento_ataque_expira:
    "S \<in> sistemas \<Longrightarrow> S\<lparr>colmena := (colmena S)\<lparr>event_ataque := False\<rparr>\<rparr> \<in> sistemas"
| evento_fin:
    "S \<in> sistemas \<Longrightarrow> S\<lparr>colmena := (colmena S)\<lparr>event_fin_simulacion := True\<rparr>\<rparr> \<in> sistemas"

section \<open>main.py: the initial population\<close>

text \<open>The loop of \<open>main\<close> that builds, starts and registers one worker after the other.\<close>

fun lanzar_abejas :: "(clase \<times> string) list \<Rightarrow> sistema \<Rightarrow> sistema" where
  "lanzar_abejas [] S = S"
| "lanzar_abejas ((c, i) # resto) S =
     (let (ref, S1) = construir c i S in lanzar_abejas resto (agregar_abeja ref S1))"

section \<open>Quantities used in the proofs\<close>

text \<open>
  The nectar waiting in the queue, the nectar that foragers have put on the queue and not
  yet counted, the relation between stored, queued, collected and uncounted nectar that
  every step of a run keeps, and the frame of the steps that do not touch the nectar.
\<close>

definition nectar_en_cola :: "colmena \<Rightarrow> int" where
  "nectar_en_cola s = sum_list (map fst (queue_nectar s))"

definition pendiente :: "obrera \<Rightarrow> int" where
  "pendiente a = (case por_contar a of Some k \<Rightarrow> k | None \<Rightarrow> 0)"

definition nectar_por_contar :: "sistema \<Rightarrow> int" where
  "nectar_por_contar S = sum_list (map pendiente (obreras S))"

definition inv_nectar :: "sistema \<Rightarrow> bool" where
  "inv_nectar S =
     (contador_global (colmena S) Nectar_almacenado + nectar_en_cola (colmena S)
        \<le> contador_global (colmena S) Nectar_recolectado + nectar_por_contar S \<and>
      list_all (\<lambda>(k, i). 0 < k) (queue_nectar (colmena S)))"

definition mismo_nectar :: "colmena \<Rightarrow> colmena \<Rightarrow> bool" where
  "mismo_nectar s s' =
     (queue_nectar s' = queue_nectar s \<and>
      contador_global s' Nectar_almacenado = contador_global s Nectar_almacenado \<and>
      contador_global s' Nectar_recolectado = contador_global s Nectar_recolectado)"

text \<open>The census minus the number of worker objects ever built.\<close>

definition exceso :: "sistema \<Rightarrow> int" where
  "exceso S = censo_total S - int (length (obreras S))"

section \<open>Example states\<close>

text \<open>A hive with one larva, two stored batches and the larva already fed.\<close>

definition colmena_larvas_llenas :: colmena where
  "colmena_larvas_llenas =
     snd (alimentar_larva ''n1''
       (snd (almacenar_nectar 3 ''a1''
         (snd (almacenar_nectar 2 ''a1'' (colmena_nueva 100 5 1))))))"

definition lotes_ejemplo :: "(int \<times> string) list" where
  "lotes_ejemplo =
     [(1, ''r1''), (2, ''r2''), (3, ''r1''), (4, ''r2''), (5, ''r1''), (1, ''r2''),
      (2, ''r1''), (3, ''r2''), (4, ''r1''), (5, ''r2''), (1, ''r1''), (2, ''r2'')]"

definition nodrizas_ejemplo :: "string list" where
  "nodrizas_ejemplo = [''n1'', ''n2'', ''n1'', ''n2'', ''n1'']"

definition colmena_con_nectar :: colmena where
  "colmena_con_nectar = snd (almacenar_sec lotes_ejemplo (colmena_nueva 10 5 3))"

text \<open>
  A run with one nurse: she is built, she dies, and the queen handles the death message
  (her two draws are 1, so she neither rebalances nor reads the metrics).
\<close>

definition sistema_inicial :: sistema where
  "sistema_inicial = Reina_init (colmena_nueva 100 5 20) [] ''q1''"

definition sistema_una_nodriza :: sistema where
  "sistema_una_nodriza = agregar_abeja 0 (snd (construir Nodriza ''n1'' sistema_inicial))"

definition sistema_nodriza_muerta :: sistema where
  "sistema_nodriza_muerta = salir 0 sistema_una_nodriza"

definition sistema_reemplazo :: sistema where
  "sistema_reemplazo = ciclo_reina 1 1 ''n2'' sistema_nodriza_muerta"

definition sistema_parado :: sistema where
  "sistema_parado =
     sistema_una_nodriza\<lparr>colmena := (colmena sistema_una_nodriza)\<lparr>event_fin_simulacion := True\<rparr>\<rparr>"

text \<open>The queen and one forager: every role has its ideal number of bees.\<close>

definition sistema_equilibrado :: sistema where
  "sistema_equilibrado = lanzar_abejas [(Recolectora, ''r1'')] sistema_inicial"

text \<open>
  Scenario C of the specification, with the census it gives (the queen is not counted
  there), and the same population as \<open>main\<close> builds it, where the queen is counted.
\<close>

definition sistema_escenario_C :: sistema where
  "sistema_escenario_C =
     \<lparr> colmena = (colmena_nueva 100 5 20)\<lparr>abejas_por_rol :=
         [(''recolectora'', 4), (''almacenadora'', 1), (''nodriza'', 1), (''defensora'', 1)]\<rparr>,
       obreras =
         [nueva_obrera Almacenadora ''a1'', nueva_obrera Recolectora ''r1'',
          nueva_obrera Recolectora ''r2'', nueva_obrera Recolectora ''r3'',
          nueva_obrera Recolectora ''r4'', nueva_obrera Nodriza ''n1'',
          nueva_obrera Defensora ''d1''],
       reina = \<lparr> id_abeja = ''q1'', rol = ''reina'', activa = True, viva = True,
                 equilibrio_ideal = equilibrio_por_defecto,
                 abejas_activas =
                   [(''a1'', 0), (''r1'', 1), (''r2'', 2), (''r3'', 3), (''r4'', 4),
                    (''n1'', 5), (''d1'', 6)] \<rparr> \<rparr>"

definition sistema_poblado_C :: sistema where
  "sistema_poblado_C =
     lanzar_abejas
       [(Almacenadora, ''a1''), (Recolectora, ''r1''), (Recolectora, ''r2''), (Recolectora, ''r3''),
        (Recolectora, ''r4''), (Nodriza, ''n1''), (Defensora, ''d1'')]
       sistema_inicial"

text \<open>
  A forager puts a batch on the queue and a storer stores it before the forager has
  counted it; then the forager counts it.
\<close>

definition sistema_ventana :: sistema where
  "sistema_ventana =
     ciclo 0 1 (ciclo 3 0
       (lanzar_abejas [(Recolectora, ''r1''), (Almacenadora, ''a1'')] sistema_inicial))"

definition sistema_contado :: sistema where
  "sistema_contado = contar 0 sistema_ventana"

text \<open>A hive without cells, in which a forager has put one batch of nectar on the queue.\<close>

definition sistema_sin_celdas :: sistema where
  "sistema_sin_celdas =
     ciclo 3 0 (lanzar_abejas [(Recolectora, ''r1''), (Almacenadora, ''a1'')]
                  (Reina_init (colmena_nueva 0 5 20) [] ''q1''))"

section \<open>Properties of the hive\<close>

lemmas colmena_defs =
  registrar_abeja_def cambiar_rol_abeja_def poner_en_cola_def contar_nectar_def
  agregar_nectar_cola_def obtener_nectar_cola_def
  almacenar_nectar_def consumir_nectar_def alimentar_larva_def visitar_flor_def
  registrar_ataque_def neutralizar_ataque_def cambiar_clima_def cambiar_ciclo_dia_def
  enviar_mensaje_reina_def obtener_mensaje_reina_def

lemma inv_celdas:
  "s \<in> alcanzable \<Longrightarrow>
     0 \<le> celdas_ocupadas s \<and> 0 \<le> semaforo_celdas s \<and>
     celdas_ocupadas s + semaforo_celdas s = capacidad_celdas s"
proof (induction rule: alcanzable.induct)
  case (inicial c p n s)
  then show ?case by (auto simp: Colmena_init_def colmena_nueva_def split: if_splits)
qed (auto simp: colmena_defs Let_def split: list.splits if_splits)

lemma inv_larvas:
  "s \<in> alcanzable \<Longrightarrow> larvas_alimentadas s \<le> max 0 (num_larvas s)"
proof (induction rule: alcanzable.induct)
  case (inicial c p n s)
  then show ?case by (auto simp: Colmena_init_def colmena_nueva_def split: if_splits)
qed (auto simp: colmena_defs Let_def split: list.splits if_splits)

subsection \<open>Visiting a flower\<close>

text \<open>
  C8. At night \<open>visitar_flor\<close> returns 0 and leaves the hive as it is, whatever the
  quality of the flowers. By day, in a hive whose carrying capacity is not negative, it
  returns for every draw and every quality the rounded product clamped into
  \<open>[0, capacidad_polen]\<close>, and the counter of visited flowers grows by exactly 1.
\<close>

theorem visitar_flor_rango:
  "(\<not> event_dia s \<longrightarrow> visitar_flor u i s = (0, s)) \<and>
   (event_dia s \<and> 0 \<le> capacidad_polen s \<longrightarrow>
      fst (visitar_flor u i s) = max 0 (min (py_round (u * calidad_flores s)) (capacidad_polen s)) \<and>
      0 \<le> fst (visitar_flor u i s) \<and>
      fst (visitar_flor u i s) \<le> capacidad_polen s \<and>
      contador_global (snd (visitar_flor u i s)) Flores_visitadas =
        contador_global s Flores_visitadas + 1)"
  by (simp add: visitar_flor_def Let_def incr_def)

lemma py_round_7_2: "py_round (7 / 2) = 4"
  by code_simp

lemma py_round_7: "py_round 7 = 7"
  by code_simp

theorem visitar_flor_rango_witness:
  "event_dia (colmena_nueva 100 5 20) \<and> 0 \<le> capacidad_polen (colmena_nueva 100 5 20) \<and>
   fst (visitar_flor (7 / 2) ''a1'' (colmena_nueva 100 5 20)) = 4 \<and>
   fst (visitar_flor (7 / 2) ''a1'' (cambiar_clima False 2 (colmena_nueva 100 5 20))) = 5 \<and>
   contador_global (snd (visitar_flor (7 / 2) ''a1'' (colmena_nueva 100 5 20))) Flores_visitadas = 1 \<and>
   \<not> event_dia (cambiar_ciclo_dia False (colmena_nueva 100 5 20)) \<and>
   fst (visitar_flor (7 / 2) ''a1'' (cambiar_ciclo_dia False (colmena_nueva 100 5 20))) = 0"
  using visitar_flor_rango [of "colmena_nueva 100 5 20" "7 / 2" "''a1''"]
    visitar_flor_rango [of "cambiar_clima False 2 (colmena_nueva 100 5 20)" "7 / 2" "''a1''"]
    visitar_flor_rango [of "cambiar_ciclo_dia False (colmena_nueva 100 5 20)" "7 / 2" "''a1''"]
  by (simp add: colmena_nueva_def cambiar_clima_def cambiar_ciclo_dia_def py_round_7_2 py_round_7)

subsection \<open>The cells\<close>

lemma colmena_nueva_alcanzable: "0 \<le> c \<Longrightarrow> colmena_nueva c p n \<in> alcanzable"
  by (rule alcanzable.inicial [of c p n]) (simp add: Colmena_init_def)

lemma almacenar_sec_gen:
  "0 \<le> semaforo_celdas s \<Longrightarrow>
   fst (almacenar_sec args s) =
     replicate (min (length args) (nat (semaforo_celdas s))) True @
     replicate (length args - nat (semaforo_celdas s)) False \<and>
   celdas_ocupadas (snd (almacenar_sec args s)) =
     celdas_ocupadas s + int (min (length args) (nat (semaforo_celdas s)))"
proof (induction args arbitrary: s)
  case Nil
  then show ?case by simp
next
  case (Cons a args)
  obtain k i where a: "a = (k, i)" by (cases a)
  show ?case
  proof (cases "0 < semaforo_celdas s")
    case True
    obtain s1 where s1: "almacenar_nectar k i s = (True, s1)"
      "semaforo_celdas s1 = semaforo_celdas s - 1" "celdas_ocupadas s1 = celdas_ocupadas s + 1"
      using True by (simp add: almacenar_nectar_def)
    have n: "nat (semaforo_celdas s) = Suc (nat (semaforo_celdas s - 1))"
      using True by simp
    have "0 \<le> semaforo_celdas s1" using True s1 by simp
    from Cons.IH [OF this] show ?thesis
      unfolding a by (simp add: s1 n split_def)
  next
    case False
    with Cons.prems have z: "semaforo_celdas s = 0" by simp
    have s1: "almacenar_nectar k i s = (False, s)"
      using z by (simp add: almacenar_nectar_def)
    from Cons.IH [of s] show ?thesis
      unfolding a by (simp add: s1 z split_def)
  qed
qed

lemma almacenar_sec_alcanzable:
  "s \<in> alcanzable \<Longrightarrow> snd (almacenar_sec args s) \<in> alcanzable"
proof (induction args arbitrary: s)
  case Nil
  then show ?case by simp
next
  case (Cons a args)
  obtain k i where a: "a = (k, i)" by (cases a)
  have "snd (almacenar_nectar k i s) \<in> alcanzable"
    using Cons.prems by (rule alcanzable.almacenar)
  from Cons.IH [OF this] show ?case
    unfolding a by (simp add: split_def Let_def)
qed

subsection \<open>Feeding the larvae\<close>

lemma alimentar_larva_con_nectar:
  "0 < celdas_ocupadas s \<Longrightarrow>
     fst (alimentar_larva i s) = (larvas_alimentadas s < num_larvas s) \<and>
     celdas_ocupadas (snd (alimentar_larva i s)) = celdas_ocupadas s - 1 \<and>
     num_larvas (snd (alimentar_larva i s)) = num_larvas s \<and>
     larvas_alimentadas (snd (alimentar_larva i s)) =
       (if larvas_alimentadas s < num_larvas s then larvas_alimentadas s + 1
        else larvas_alimentadas s)"
  by (simp add: alimentar_larva_def consumir_nectar_def)

lemma escenario_B:
  assumes "num_larvas s = 3" "larvas_alimentadas s = 0" "5 \<le> celdas_ocupadas s" "length ids = 5"
  shows "fst (alimentar_sec ids s) = [True, True, True, False, False] \<and>
         larvas_alimentadas (snd (alimentar_sec ids s)) = 3"
proof -
  obtain a b c d e where ids: "ids = [a, b, c, d, e]"
    using assms(4) by (auto simp: length_Suc_conv eval_nat_numeral)
  let ?s1 = "snd (alimentar_larva a s)"
  let ?s2 = "snd (alimentar_larva b ?s1)"
  let ?s3 = "snd (alimentar_larva c ?s2)"
  let ?s4 = "snd (alimentar_larva d ?s3)"
  let ?s5 = "snd (alimentar_larva e ?s4)"
  have 1: "fst (alimentar_larva a s)" "celdas_ocupadas ?s1 = celdas_ocupadas s - 1"
    "num_larvas ?s1 = 3" "larvas_alimentadas ?s1 = 1"
    using alimentar_larva_con_nectar [of s a] assms by simp_all
  have 2: "fst (alimentar_larva b ?s1)" "celdas_ocupadas ?s2 = celdas_ocupadas s - 2"
    "num_larvas ?s2 = 3" "larvas_alimentadas ?s2 = 2"
    using alimentar_larva_con_nectar [of ?s1 b] assms 1 by simp_all
  have 3: "fst (alimentar_larva c ?s2)" "celdas_ocupadas ?s3 = celdas_ocupadas s - 3"
    "num_larvas ?s3 = 3" "larvas_alimentadas ?s3 = 3"
    using alimentar_larva_con_nectar [of ?s2 c] assms 2 by simp_all
  have 4: "\<not> fst (alimentar_larva d ?s3)" "celdas_ocupadas ?s4 = celdas_ocupadas s - 4"
    "num_larvas ?s4 = 3" "larvas_alimentadas ?s4 = 3"
    using alimentar_larva_con_nectar [of ?s3 d] assms 3 by simp_all
  have 5: "\<not> fst (alimentar_larva e ?s4)" "larvas_alimentadas ?s5 = 3"
    using alimentar_larva_con_nectar [of ?s4 e] assms 4 by simp_all
  show ?thesis
    unfolding ids using 1(1) 2(1) 3(1) 4(1) 5 by (simp add: split_def Let_def)
qed

lemma colmena_con_nectar_campos:
  "num_larvas colmena_con_nectar = 3" "larvas_alimentadas colmena_con_nectar = 0"
  "celdas_ocupadas colmena_con_nectar = 10"
  by (simp_all add: colmena_con_nectar_def lotes_ejemplo_def colmena_nueva_def
      almacenar_nectar_def)




section \<open>Runs of the program\<close>

subsection \<open>The hive of a run\<close>

lemma colmena_agregar_abeja [simp]: "colmena (agregar_abeja ref S) = colmena S"
  by (simp add: agregar_abeja_def)

lemma alc_al_salir: "s \<in> alcanzable \<Longrightarrow> al_salir a s \<in> alcanzable"
  by (simp add: al_salir_def alcanzable.enviar)

lemma alc_construir: "colmena S \<in> alcanzable \<Longrightarrow> colmena (snd (construir c i S)) \<in> alcanzable"
  by (simp add: construir_def alcanzable.registrar)

lemma alc_cambiar_rol: "colmena S \<in> alcanzable \<Longrightarrow> colmena (cambiar_rol ref r S) \<in> alcanzable"
  by (simp add: cambiar_rol_def Let_def alcanzable.cambiar_rol)

lemma alc_crear_abeja: "colmena S \<in> alcanzable \<Longrightarrow> colmena (snd (crear_abeja r i S)) \<in> alcanzable"
  by (simp add: crear_abeja_def construir_def alcanzable.registrar split: option.splits)

lemma alc_procesar:
  assumes "colmena S \<in> alcanzable"
  shows "colmena (procesar_mensaje m i S) \<in> alcanzable"
proof (cases m)
  case (Muerte r j)
  let ?S' = "S\<lparr>reina := (reina S)\<lparr>abejas_activas := dict_quitar (abejas_activas (reina S)) j\<rparr>\<rparr>"
  have "colmena ?S' \<in> alcanzable" using assms by simp
  from alc_crear_abeja [OF this, of r i] alc_crear_abeja [OF assms, of r i] show ?thesis
    by (simp add: Muerte procesar_mensaje_def reemplazar_abeja_muerta_def Let_def)
next
  case (Inactiva r j n)
  with assms show ?thesis
    by (simp add: procesar_mensaje_def alc_cambiar_rol split: option.splits)
next
  case (Falta_alimento r j)
  with assms show ?thesis by (simp add: procesar_mensaje_def alcanzable.enviar)
next
  case Necesidad_nectar
  with assms show ?thesis by (simp add: procesar_mensaje_def)
qed

lemma alc_reasignar:
  "reasignar_roles S = Inr (b, S') \<Longrightarrow> colmena S \<in> alcanzable \<Longrightarrow> colmena S' \<in> alcanzable"
  by (auto simp: reasignar_roles_def alc_cambiar_rol split: sum.splits if_splits option.splits prod.splits)

lemma alc_trabajar_reina:
  assumes "colmena S \<in> alcanzable"
  shows "colmena (snd (trabajar_reina a1 a2 i S)) \<in> alcanzable"
proof -
  obtain m c1 where o: "obtener_mensaje_reina (colmena S) = (m, c1)"
    by (cases "obtener_mensaje_reina (colmena S)")
  let ?S1 = "S\<lparr>colmena := c1\<rparr>"
  let ?S2 = "case m of Some m' \<Rightarrow> procesar_mensaje m' i ?S1 | None \<Rightarrow> ?S1"
  have 1: "colmena ?S1 \<in> alcanzable"
    using alcanzable.recibir [OF assms] o by simp
  have 2: "colmena ?S2 \<in> alcanzable"
  proof (cases m)
    case None
    with 1 show ?thesis by simp
  next
    case (Some m')
    with alc_procesar [OF 1, of m' i] show ?thesis by simp
  qed
  show ?thesis
  proof (cases "reasignar_roles ?S2")
    case (Inl e)
    with 2 show ?thesis by (simp add: trabajar_reina_def o Let_def)
  next
    case (Inr p)
    obtain b S3 where p: "p = (b, S3)" by (cases p)
    from alc_reasignar [of ?S2 b S3] Inr p 2 have "colmena S3 \<in> alcanzable"
      by simp
    with 2 Inr p show ?thesis by (simp add: trabajar_reina_def o Let_def)
  qed
qed

lemma alc_ciclo_reina:
  assumes "colmena S \<in> alcanzable"
  shows "colmena (ciclo_reina a1 a2 i S) \<in> alcanzable"
proof -
  obtain e S1 where t: "trabajar_reina a1 a2 i S = (e, S1)"
    by (cases "trabajar_reina a1 a2 i S")
  from alc_trabajar_reina [OF assms, of a1 a2 i] t have 1: "colmena S1 \<in> alcanzable"
    by simp
  then have "colmena (salir_reina S1) \<in> alcanzable"
    by (simp add: salir_reina_def alc_al_salir)
  with 1 t assms show ?thesis
    by (simp add: ciclo_reina_def split: option.splits)
qed

lemma alc_paso_trabajar:
  assumes "colmena S \<in> alcanzable"
  shows "colmena (paso_trabajar u ref S) \<in> alcanzable"
proof (cases "clase (obreras S ! ref)")
  case Recolectora
  let ?i = "id_abeja (obreras S ! ref)"
  have v: "snd (visitar_flor u ?i (colmena S)) \<in> alcanzable"
    using assms by (rule alcanzable.visitar)
  then have "poner_en_cola (fst (visitar_flor u ?i (colmena S))) ?i
               (snd (visitar_flor u ?i (colmena S))) \<in> alcanzable"
    by (rule alcanzable.poner)
  with v Recolectora show ?thesis
    by (simp add: paso_trabajar_def recolectar_def Let_def split_def)
next
  case Almacenadora
  let ?i = "id_abeja (obreras S ! ref)"
  have o: "snd (obtener_nectar_cola (colmena S)) \<in> alcanzable"
    using assms by (rule alcanzable.obtener)
  then have "\<And>k. snd (almacenar_nectar k ?i (snd (obtener_nectar_cola (colmena S)))) \<in> alcanzable"
    and "\<And>m. enviar_mensaje_reina m (snd (obtener_nectar_cola (colmena S))) \<in> alcanzable"
    by (simp_all add: alcanzable.almacenar alcanzable.enviar)
  with o Almacenadora show ?thesis
    by (simp add: paso_trabajar_def trabajar_almacenadora_def Let_def split_def split: option.splits)
next
  case Nodriza
  let ?i = "id_abeja (obreras S ! ref)"
  have o: "snd (alimentar_larva ?i (colmena S)) \<in> alcanzable"
    using assms by (rule alcanzable.alimentar)
  then have "\<And>m. enviar_mensaje_reina m (snd (alimentar_larva ?i (colmena S))) \<in> alcanzable"
    by (simp add: alcanzable.enviar)
  with o Nodriza show ?thesis
    by (simp add: paso_trabajar_def trabajar_nodriza_def Let_def split_def)
next
  case Defensora
  with assms show ?thesis
    by (simp add: paso_trabajar_def trabajar_defensora_def Let_def alcanzable.neutralizar)
qed

lemma alc_contar: "colmena S \<in> alcanzable \<Longrightarrow> colmena (contar ref S) \<in> alcanzable"
  by (simp add: contar_def Let_def alcanzable.contar split: option.splits)

lemma alcanzable_agregar: "s \<in> alcanzable \<Longrightarrow> agregar_nectar_cola k i s \<in> alcanzable"
  by (simp add: agregar_nectar_cola_def alcanzable.poner alcanzable.contar)

lemma sistemas_alcanzable: "S \<in> sistemas \<Longrightarrow> colmena S \<in> alcanzable"
proof (induction rule: sistemas.induct)
  case (arranque c p n s eq i)
  then have "s \<in> alcanzable" by (rule alcanzable.inicial)
  then show ?case by (simp add: Reina_init_def alcanzable.registrar)
next
  case (poblar S c i ref S1)
  with alc_construir [of S c i] show ?case by simp
next
  case (ciclo_obrera S ref u)
  then show ?case by (simp add: ciclo_def alc_paso_trabajar)
next
  case (cuenta_obrera S ref k)
  then show ?case by (simp add: alc_contar)
next
  case (fin_obrera S ref)
  then show ?case by (simp add: salir_def alc_al_salir)
next
  case (ciclo_de_reina S a1 a2 i)
  then show ?case by (simp add: alc_ciclo_reina)
next
  case (fin_reina S)
  then show ?case by (simp add: salir_reina_def alc_al_salir)
next
  case (evento_clima S l q)
  then show ?case by (simp add: alcanzable.clima)
next
  case (evento_dia S d)
  then show ?case by (simp add: alcanzable.ciclo_dia)
next
  case (evento_ataque S)
  then show ?case by (simp add: alcanzable.ataque)
next
  case (evento_ataque_expira S)
  then show ?case by (simp add: alcanzable.ataque_expira)
next
  case (evento_fin S)
  then show ?case by (simp add: alcanzable.fin)
qed


lemma sistema_inicial_sistemas: "sistema_inicial \<in> sistemas"
  unfolding sistema_inicial_def
  by (rule sistemas.arranque [of 100 5 20]) (simp add: Colmena_init_def)

lemma lanzar_abejas_sistemas: "S \<in> sistemas \<Longrightarrow> lanzar_abejas bs S \<in> sistemas"
proof (induction bs arbitrary: S)
  case Nil
  then show ?case by simp
next
  case (Cons b bs)
  obtain c i where b: "b = (c, i)" by (cases b)
  obtain ref S1 where k: "construir c i S = (ref, S1)" by (cases "construir c i S")
  from Cons.prems k have "agregar_abeja ref S1 \<in> sistemas" by (rule sistemas.poblar)
  from Cons.IH [OF this] show ?case by (simp add: b k)
qed

lemma sin_celdas_1:
  "fst (obtener_nectar_cola (colmena sistema_sin_celdas)) = Some (3, ''r1'')" by code_simp
lemma sin_celdas_2:
  "id_abeja (obreras sistema_sin_celdas ! 1) = ''a1''" by code_simp
lemma sin_celdas_3:
  "\<not> fst (almacenar_nectar 3 ''a1'' (snd (obtener_nectar_cola (colmena sistema_sin_celdas))))" by code_simp
lemma sin_celdas_4:
  "contador_global (colmena sistema_sin_celdas) Nectar_recolectado = 0"
  "contador_global (colmena sistema_sin_celdas) Nectar_almacenado = 0"
  "queue_nectar (colmena sistema_sin_celdas) = [(3, ''r1'')]"
  by code_simp+
lemma sin_celdas_5:
  "clase (obreras sistema_sin_celdas ! 1) = Almacenadora"
  "1 < length (obreras sistema_sin_celdas)"
  "sigue (obreras sistema_sin_celdas ! 1) (colmena sistema_sin_celdas)"
  "\<not> descansa (obreras sistema_sin_celdas ! 1) (colmena sistema_sin_celdas)"
  "por_contar (obreras sistema_sin_celdas ! 1) = None"
  by code_simp+

lemma sin_celdas_sistemas: "sistema_sin_celdas \<in> sistemas"
proof -
  let ?S = "lanzar_abejas [(Recolectora, ''r1''), (Almacenadora, ''a1'')]
                  (Reina_init (colmena_nueva 0 5 20) [] ''q1'')"
  have "Reina_init (colmena_nueva 0 5 20) [] ''q1'' \<in> sistemas"
    by (rule sistemas.arranque [of 0 5 20]) (simp add: Colmena_init_def)
  then have s: "?S \<in> sistemas" by (rule lanzar_abejas_sistemas)
  have "0 < length (obreras ?S)" by code_simp
  moreover have "sigue (obreras ?S ! 0) (colmena ?S)" by code_simp
  moreover have "por_contar (obreras ?S ! 0) = None" by code_simp
  ultimately show ?thesis
    unfolding sistema_sin_celdas_def using s by (intro sistemas.ciclo_obrera)
qed

text \<open>
  C4. In every hive state that calls of the hive's methods can produce, and so in the
  hive of every state of a run, the number of occupied cells is between 0 and the
  capacity. With a capacity of 10 and all cells free, 12 calls of \<open>almacenar_nectar\<close> in a
  row, whatever their arguments, return true 10 times and then false twice, and leave 10
  cells occupied.
\<close>

theorem celdas_dentro_de_capacidad:
  "(\<forall>s \<in> alcanzable. 0 \<le> celdas_ocupadas s \<and> celdas_ocupadas s \<le> capacidad_celdas s) \<and>
   (\<forall>S \<in> sistemas. 0 \<le> celdas_ocupadas (colmena S) \<and>
      celdas_ocupadas (colmena S) \<le> capacidad_celdas (colmena S)) \<and>
   (\<forall>args p n. length args = 12 \<longrightarrow>
      fst (almacenar_sec args (colmena_nueva 10 p n)) = replicate 10 True @ replicate 2 False \<and>
      celdas_ocupadas (snd (almacenar_sec args (colmena_nueva 10 p n))) = 10)"
proof (intro conjI ballI allI impI)
  fix s assume "s \<in> alcanzable"
  from inv_celdas [OF this]
  show "0 \<le> celdas_ocupadas s" and "celdas_ocupadas s \<le> capacidad_celdas s"
    by simp_all
next
  fix S :: sistema assume "S \<in> sistemas"
  from inv_celdas [OF sistemas_alcanzable [OF this]]
  show "0 \<le> celdas_ocupadas (colmena S)"
    and "celdas_ocupadas (colmena S) \<le> capacidad_celdas (colmena S)"
    by simp_all
next
  fix args :: "(int \<times> string) list" and p n :: int
  assume l: "length args = 12"
  from l almacenar_sec_gen [of "colmena_nueva 10 p n" args]
  show "fst (almacenar_sec args (colmena_nueva 10 p n)) = replicate 10 True @ replicate 2 False"
    and "celdas_ocupadas (snd (almacenar_sec args (colmena_nueva 10 p n))) = 10"
    by (simp_all add: colmena_nueva_def)
qed

theorem celdas_dentro_de_capacidad_witness:
  "colmena_con_nectar \<in> alcanzable \<and> sistema_sin_celdas \<in> sistemas \<and>
   length lotes_ejemplo = 12 \<and>
   0 \<le> celdas_ocupadas colmena_con_nectar \<and>
   celdas_ocupadas colmena_con_nectar \<le> capacidad_celdas colmena_con_nectar \<and>
   0 \<le> celdas_ocupadas (colmena sistema_sin_celdas) \<and>
   celdas_ocupadas (colmena sistema_sin_celdas) \<le> capacidad_celdas (colmena sistema_sin_celdas) \<and>
   fst (almacenar_sec lotes_ejemplo (colmena_nueva 10 5 3)) =
     [True, True, True, True, True, True, True, True, True, True, False, False] \<and>
   celdas_ocupadas colmena_con_nectar = 10"
proof -
  have r: "colmena_con_nectar \<in> alcanzable"
    unfolding colmena_con_nectar_def
    by (intro almacenar_sec_alcanzable colmena_nueva_alcanzable) simp
  have l: "length lotes_ejemplo = 12"
    by (simp add: lotes_ejemplo_def)
  have e: "replicate 10 True @ replicate 2 False =
      [True, True, True, True, True, True, True, True, True, True, False, False]"
    by (simp add: eval_nat_numeral)
  from celdas_dentro_de_capacidad r l e sin_celdas_sistemas show ?thesis
    unfolding colmena_con_nectar_def by auto
qed

text \<open>
  C5. In every hive state that calls of the hive's methods can produce, and so in the
  hive of every state of a run, the number of fed larvae is at most the number of larvae,
  provided the hive was built with a number of larvae that is not negative. With 3
  larvae, none of them fed, and at least 5 occupied cells (so that each call finds stored
  nectar), 5 calls of \<open>alimentar_larva\<close> in a row return true 3 times and then false
  twice, and leave 3 larvae fed.
\<close>

theorem larvas_dentro_de_capacidad:
  "(\<forall>s \<in> alcanzable. 0 \<le> num_larvas s \<longrightarrow> larvas_alimentadas s \<le> num_larvas s) \<and>
   (\<forall>S \<in> sistemas. 0 \<le> num_larvas (colmena S) \<longrightarrow>
      larvas_alimentadas (colmena S) \<le> num_larvas (colmena S)) \<and>
   (\<forall>s ids. num_larvas s = 3 \<and> larvas_alimentadas s = 0 \<and> 5 \<le> celdas_ocupadas s \<and>
        length ids = 5 \<longrightarrow>
      fst (alimentar_sec ids s) = [True, True, True, False, False] \<and>
      larvas_alimentadas (snd (alimentar_sec ids s)) = 3)"
proof (intro conjI ballI allI impI)
  fix s :: colmena assume "s \<in> alcanzable" and "0 \<le> num_larvas s"
  with inv_larvas [of s] show "larvas_alimentadas s \<le> num_larvas s"
    by simp
next
  fix S :: sistema assume "S \<in> sistemas" and "0 \<le> num_larvas (colmena S)"
  with inv_larvas [OF sistemas_alcanzable, of S]
  show "larvas_alimentadas (colmena S) \<le> num_larvas (colmena S)"
    by simp
next
  fix s :: colmena and ids :: "string list"
  assume "num_larvas s = 3 \<and> larvas_alimentadas s = 0 \<and> 5 \<le> celdas_ocupadas s \<and> length ids = 5"
  then show "fst (alimentar_sec ids s) = [True, True, True, False, False]"
    and "larvas_alimentadas (snd (alimentar_sec ids s)) = 3"
    using escenario_B [of s ids] by simp_all
qed

lemma larvas_ejemplos:
  "num_larvas colmena_larvas_llenas = 1" "larvas_alimentadas colmena_larvas_llenas = 1"
  "num_larvas (colmena sistema_sin_celdas) = 20"
  "larvas_alimentadas (colmena sistema_sin_celdas) = 0"
  by code_simp+

theorem larvas_dentro_de_capacidad_witness:
  "colmena_larvas_llenas \<in> alcanzable \<and> sistema_sin_celdas \<in> sistemas \<and>
   0 \<le> num_larvas colmena_larvas_llenas \<and> 0 \<le> num_larvas (colmena sistema_sin_celdas) \<and>
   larvas_alimentadas colmena_larvas_llenas \<le> num_larvas colmena_larvas_llenas \<and>
   larvas_alimentadas (colmena sistema_sin_celdas) \<le> num_larvas (colmena sistema_sin_celdas) \<and>
   num_larvas colmena_con_nectar = 3 \<and> larvas_alimentadas colmena_con_nectar = 0 \<and>
   5 \<le> celdas_ocupadas colmena_con_nectar \<and> length nodrizas_ejemplo = 5 \<and>
   fst (alimentar_sec nodrizas_ejemplo colmena_con_nectar) = [True, True, True, False, False] \<and>
   larvas_alimentadas (snd (alimentar_sec nodrizas_ejemplo colmena_con_nectar)) = 3"
proof -
  have r: "colmena_larvas_llenas \<in> alcanzable"
    unfolding colmena_larvas_llenas_def
    by (intro alcanzable.alimentar alcanzable.almacenar colmena_nueva_alcanzable) simp
  have l: "length nodrizas_ejemplo = 5"
    by (simp add: nodrizas_ejemplo_def)
  from larvas_dentro_de_capacidad r l colmena_con_nectar_campos sin_celdas_sistemas
    larvas_ejemplos
  show ?thesis
    by auto
qed

subsection \<open>Leaving the loop\<close>

lemma una_nodriza_sistemas: "sistema_una_nodriza \<in> sistemas"
  unfolding sistema_una_nodriza_def
  by (rule sistemas.poblar [OF sistema_inicial_sistemas, of Nodriza "''n1''"])
    (simp add: construir_def sistema_inicial_def Reina_init_def)

lemma una_nodriza_campos:
  "0 < length (obreras sistema_una_nodriza)"
  "viva (obreras sistema_una_nodriza ! 0)"
  "rol (obreras sistema_una_nodriza ! 0) = ''nodriza''"
  "id_abeja (obreras sistema_una_nodriza ! 0) = ''n1''"
  "por_contar (obreras sistema_una_nodriza ! 0) = None"
  "\<not> event_fin_simulacion (colmena sistema_una_nodriza)"
  "queue_reina (colmena sistema_una_nodriza) = []"
  "obreras sistema_parado = obreras sistema_una_nodriza"
  "event_fin_simulacion (colmena sistema_parado)"
  "queue_reina (colmena sistema_parado) = []"
  by (simp_all add: sistema_parado_def sistema_una_nodriza_def construir_def sistema_inicial_def
      Reina_init_def agregar_abeja_def nueva_obrera_def colmena_nueva_def registrar_abeja_def)

lemma sistema_parado_sistemas: "sistema_parado \<in> sistemas"
  unfolding sistema_parado_def using una_nodriza_sistemas by (rule sistemas.evento_fin)

text \<open>
  C9. When a bee leaves \<open>run\<close>, the queue of the queen is as before if the end of the
  simulation is set at that moment, and otherwise it has grown by exactly the death
  message of that bee; the same holds for the queen herself.
\<close>

theorem muerte_segun_fin:
  "queue_reina (colmena (salir ref S)) =
     (if event_fin_simulacion (colmena S) then queue_reina (colmena S)
      else queue_reina (colmena S) @ [Muerte (rol (obreras S ! ref)) (id_abeja (obreras S ! ref))]) \<and>
   queue_reina (colmena (salir_reina S)) =
     (if event_fin_simulacion (colmena S) then queue_reina (colmena S)
      else queue_reina (colmena S) @ [Muerte (rol (reina S)) (id_abeja (reina S))])"
  by (simp add: salir_def salir_reina_def al_salir_def enviar_mensaje_reina_def)

theorem muerte_segun_fin_witness:
  "sistema_una_nodriza \<in> sistemas \<and> \<not> event_fin_simulacion (colmena sistema_una_nodriza) \<and>
   queue_reina (colmena sistema_una_nodriza) = [] \<and>
   queue_reina (colmena (salir 0 sistema_una_nodriza)) = [Muerte ''nodriza'' ''n1''] \<and>
   sistema_parado \<in> sistemas \<and> event_fin_simulacion (colmena sistema_parado) \<and>
   queue_reina (colmena sistema_parado) = [] \<and>
   queue_reina (colmena (salir 0 sistema_parado)) = []"
  using muerte_segun_fin [of 0 sistema_una_nodriza] muerte_segun_fin [of 0 sistema_parado]
    una_nodriza_sistemas sistema_parado_sistemas
  by (simp add: una_nodriza_campos)

subsection \<open>Collected, queued and stored nectar\<close>

lemma mismo_nectar_refl [simp]: "mismo_nectar s s"
  by (simp add: mismo_nectar_def)

lemma mismo_nectar_trans: "mismo_nectar s s' \<Longrightarrow> mismo_nectar s' s'' \<Longrightarrow> mismo_nectar s s''"
  by (simp add: mismo_nectar_def)

lemma mismo_nectar_inv:
  "mismo_nectar (colmena S) (colmena S') \<Longrightarrow> nectar_por_contar S' = nectar_por_contar S \<Longrightarrow>
     inv_nectar S \<Longrightarrow> inv_nectar S'"
  by (simp add: mismo_nectar_def inv_nectar_def nectar_en_cola_def)

lemma mn_registrar: "mismo_nectar s (registrar_abeja i r s)"
  by (simp add: mismo_nectar_def registrar_abeja_def)

lemma mn_cambiar_rol_abeja: "mismo_nectar s (cambiar_rol_abeja r r' s)"
  by (simp add: mismo_nectar_def cambiar_rol_abeja_def incr_def)

lemma mn_enviar: "mismo_nectar s (enviar_mensaje_reina m s)"
  by (simp add: mismo_nectar_def enviar_mensaje_reina_def)

lemma mn_obtener_mensaje: "mismo_nectar s (snd (obtener_mensaje_reina s))"
  by (simp add: mismo_nectar_def obtener_mensaje_reina_def split: list.splits)

lemma mn_al_salir: "mismo_nectar s (al_salir a s)"
  by (simp add: al_salir_def mn_enviar)

lemma mn_alimentar: "mismo_nectar s (snd (alimentar_larva i s))"
  by (simp add: mismo_nectar_def alimentar_larva_def consumir_nectar_def incr_def)

lemma mn_neutralizar: "mismo_nectar s (neutralizar_ataque i s)"
  by (simp add: mismo_nectar_def neutralizar_ataque_def incr_def)

lemma mn_construir: "mismo_nectar (colmena S) (colmena (snd (construir c i S)))"
  by (simp add: construir_def mn_registrar)

lemma mn_cambiar_rol: "mismo_nectar (colmena S) (colmena (cambiar_rol ref r S))"
  by (simp add: cambiar_rol_def Let_def mn_cambiar_rol_abeja)

lemma mn_crear_abeja: "mismo_nectar (colmena S) (colmena (snd (crear_abeja r i S)))"
  by (simp add: crear_abeja_def construir_def mn_registrar split: option.splits)

lemma mn_procesar: "mismo_nectar (colmena S) (colmena (procesar_mensaje m i S))"
proof (cases m)
  case (Muerte r j)
  show ?thesis
    using mn_crear_abeja [of S r i]
      mn_crear_abeja [of "S\<lparr>reina := (reina S)\<lparr>abejas_activas := dict_quitar (abejas_activas (reina S)) j\<rparr>\<rparr>" r i]
    by (simp add: Muerte procesar_mensaje_def reemplazar_abeja_muerta_def Let_def)
next
  case (Inactiva r j n)
  then show ?thesis
    by (simp add: procesar_mensaje_def mn_cambiar_rol split: option.splits)
next
  case (Falta_alimento r j)
  then show ?thesis by (simp add: procesar_mensaje_def mn_enviar)
next
  case Necesidad_nectar
  then show ?thesis by (simp add: procesar_mensaje_def)
qed

lemma mn_reasignar:
  "reasignar_roles S = Inr (b, S') \<Longrightarrow> mismo_nectar (colmena S) (colmena S')"
  by (auto simp: reasignar_roles_def mn_cambiar_rol split: sum.splits if_splits option.splits prod.splits)

lemma mn_trabajar_reina:
  "mismo_nectar (colmena S) (colmena (snd (trabajar_reina a1 a2 i S)))"
proof -
  obtain m c1 where o: "obtener_mensaje_reina (colmena S) = (m, c1)"
    by (cases "obtener_mensaje_reina (colmena S)")
  let ?S1 = "S\<lparr>colmena := c1\<rparr>"
  let ?S2 = "case m of Some m' \<Rightarrow> procesar_mensaje m' i ?S1 | None \<Rightarrow> ?S1"
  have 1: "mismo_nectar (colmena S) (colmena ?S1)"
    using mn_obtener_mensaje [of "colmena S"] o by simp
  have "mismo_nectar (colmena ?S1) (colmena ?S2)"
  proof (cases m)
    case None
    then show ?thesis by simp
  next
    case (Some m')
    with mn_procesar [of ?S1 m' i] show ?thesis by simp
  qed
  with 1 have 2: "mismo_nectar (colmena S) (colmena ?S2)"
    by (rule mismo_nectar_trans)
  show ?thesis
  proof (cases "reasignar_roles ?S2")
    case (Inl e)
    with 2 show ?thesis by (simp add: trabajar_reina_def o Let_def)
  next
    case (Inr p)
    obtain b S3 where p: "p = (b, S3)" by (cases p)
    from mn_reasignar [of ?S2 b S3] Inr p have "mismo_nectar (colmena ?S2) (colmena S3)"
      by simp
    with 2 have "mismo_nectar (colmena S) (colmena S3)" by (rule mismo_nectar_trans)
    with 2 Inr p show ?thesis by (simp add: trabajar_reina_def o Let_def)
  qed
qed

lemma mn_ciclo_reina: "mismo_nectar (colmena S) (colmena (ciclo_reina a1 a2 i S))"
proof -
  obtain e S1 where t: "trabajar_reina a1 a2 i S = (e, S1)"
    by (cases "trabajar_reina a1 a2 i S")
  from mn_trabajar_reina [of S a1 a2 i] t have 1: "mismo_nectar (colmena S) (colmena S1)"
    by simp
  have "mismo_nectar (colmena S1) (colmena (salir_reina S1))"
    by (simp add: salir_reina_def mn_al_salir)
  with 1 have "mismo_nectar (colmena S) (colmena (salir_reina S1))"
    by (rule mismo_nectar_trans)
  with 1 t show ?thesis
    by (simp add: ciclo_reina_def split: option.splits)
qed

lemma pendiente_mismo:
  "pendiente y = pendiente (xs ! ref) \<Longrightarrow> map pendiente (xs[ref := y]) = map pendiente xs"
  by (induction xs arbitrary: ref) (auto split: nat.splits)

lemma pendiente_cambia:
  "ref < length xs \<Longrightarrow>
     sum_list (map pendiente (xs[ref := y])) =
       sum_list (map pendiente xs) - pendiente (xs ! ref) + pendiente y"
  by (induction xs arbitrary: ref) (auto split: nat.splits)

lemma npc_solo_obreras:
  "map pendiente (obreras S') = map pendiente (obreras S) \<Longrightarrow>
     nectar_por_contar S' = nectar_por_contar S"
  by (simp add: nectar_por_contar_def)

lemma npc_agregar [simp]: "nectar_por_contar (agregar_abeja ref S) = nectar_por_contar S"
  by (simp add: nectar_por_contar_def agregar_abeja_def)

lemma npc_construir: "nectar_por_contar (snd (construir c i S)) = nectar_por_contar S"
  by (simp add: nectar_por_contar_def construir_def nueva_obrera_def pendiente_def)

lemma npc_cambiar_rol: "nectar_por_contar (cambiar_rol ref r S) = nectar_por_contar S"
  by (rule npc_solo_obreras) (simp add: cambiar_rol_def Let_def pendiente_mismo pendiente_def)

lemma npc_crear_abeja: "nectar_por_contar (snd (crear_abeja r i S)) = nectar_por_contar S"
  by (simp add: crear_abeja_def split_def Let_def npc_construir split: option.splits)

lemma npc_procesar: "nectar_por_contar (procesar_mensaje m i S) = nectar_por_contar S"
proof (cases m)
  case (Muerte r j)
  let ?S' = "S\<lparr>reina := (reina S)\<lparr>abejas_activas := dict_quitar (abejas_activas (reina S)) j\<rparr>\<rparr>"
  have "nectar_por_contar ?S' = nectar_por_contar S" by (rule npc_solo_obreras) simp
  with npc_crear_abeja [of r i ?S'] npc_crear_abeja [of r i S] show ?thesis
    by (simp add: Muerte procesar_mensaje_def reemplazar_abeja_muerta_def Let_def)
next
  case (Inactiva r j n)
  then show ?thesis
    by (simp add: procesar_mensaje_def npc_cambiar_rol split: option.splits)
next
  case (Falta_alimento r j)
  have "nectar_por_contar (S\<lparr>colmena := enviar_mensaje_reina Necesidad_nectar (colmena S)\<rparr>) =
      nectar_por_contar S"
    by (rule npc_solo_obreras) simp
  with Falta_alimento show ?thesis by (simp add: procesar_mensaje_def)
next
  case Necesidad_nectar
  then show ?thesis by (simp add: procesar_mensaje_def)
qed

lemma npc_reasignar:
  "reasignar_roles S = Inr (b, S') \<Longrightarrow> nectar_por_contar S' = nectar_por_contar S"
  by (auto simp: reasignar_roles_def npc_cambiar_rol
      split: sum.splits if_splits option.splits prod.splits)

lemma npc_salir_reina: "nectar_por_contar (salir_reina S) = nectar_por_contar S"
  by (rule npc_solo_obreras) (simp add: salir_reina_def)

lemma npc_salir: "nectar_por_contar (salir ref S) = nectar_por_contar S"
  by (rule npc_solo_obreras) (simp add: salir_def pendiente_mismo pendiente_def)

lemma npc_trabajar_reina:
  "nectar_por_contar (snd (trabajar_reina a1 a2 i S)) = nectar_por_contar S"
proof -
  obtain m c1 where o: "obtener_mensaje_reina (colmena S) = (m, c1)"
    by (cases "obtener_mensaje_reina (colmena S)")
  let ?S1 = "S\<lparr>colmena := c1\<rparr>"
  let ?S2 = "case m of Some m' \<Rightarrow> procesar_mensaje m' i ?S1 | None \<Rightarrow> ?S1"
  have 1: "nectar_por_contar ?S1 = nectar_por_contar S"
    by (rule npc_solo_obreras) simp
  have 2: "nectar_por_contar ?S2 = nectar_por_contar S"
    using 1 by (cases m) (simp_all add: npc_procesar)
  show ?thesis
  proof (cases "reasignar_roles ?S2")
    case (Inl e)
    with 2 show ?thesis by (simp add: trabajar_reina_def o Let_def)
  next
    case (Inr p)
    obtain b S3 where p: "p = (b, S3)" by (cases p)
    from npc_reasignar [of ?S2 b S3] Inr p 2 have "nectar_por_contar S3 = nectar_por_contar S"
      by simp
    with 2 Inr p show ?thesis by (simp add: trabajar_reina_def o Let_def)
  qed
qed

lemma npc_ciclo_reina: "nectar_por_contar (ciclo_reina a1 a2 i S) = nectar_por_contar S"
proof -
  obtain e S1 where t: "trabajar_reina a1 a2 i S = (e, S1)"
    by (cases "trabajar_reina a1 a2 i S")
  from npc_trabajar_reina [of a1 a2 i S] t have 1: "nectar_por_contar S1 = nectar_por_contar S"
    by simp
  with npc_salir_reina [of S1] t show ?thesis
    by (simp add: ciclo_reina_def split: option.splits)
qed

lemma npc_trabajar_almacenadora:
  "nectar_por_contar (trabajar_almacenadora ref S) = nectar_por_contar S"
  by (rule npc_solo_obreras)
    (simp add: trabajar_almacenadora_def Let_def split_def pendiente_mismo pendiente_def
      split: option.splits)

lemma npc_trabajar_nodriza:
  "nectar_por_contar (trabajar_nodriza ref S) = nectar_por_contar S"
  by (rule npc_solo_obreras)
    (simp add: trabajar_nodriza_def Let_def split_def pendiente_mismo pendiente_def)

lemma npc_trabajar_defensora:
  "nectar_por_contar (trabajar_defensora ref S) = nectar_por_contar S"
  by (rule npc_solo_obreras) (simp add: trabajar_defensora_def Let_def)

lemma inv_recolectar:
  assumes "ref < length (obreras S)" and "por_contar (obreras S ! ref) = None"
    and "inv_nectar S"
  shows "inv_nectar (recolectar u ref S)"
proof -
  let ?i = "id_abeja (obreras S ! ref)"
  obtain polen c1 where v: "visitar_flor u ?i (colmena S) = (polen, c1)"
    by (cases "visitar_flor u ?i (colmena S)")
  then have c: "mismo_nectar (colmena S) c1"
    by (auto simp: visitar_flor_def mismo_nectar_def Let_def incr_def split: if_splits)
  show ?thesis
  proof (cases "0 < polen")
    case True
    have k: "colmena (recolectar u ref S) = poner_en_cola polen ?i c1"
      using True v by (simp add: recolectar_def Let_def)
    have n: "nectar_por_contar (recolectar u ref S) = nectar_por_contar S + polen"
      using assms(1,2) True v
      by (simp add: recolectar_def Let_def nectar_por_contar_def pendiente_cambia pendiente_def)
    show ?thesis
      unfolding inv_nectar_def k n using assms(3) c True
      by (simp add: inv_nectar_def poner_en_cola_def nectar_en_cola_def mismo_nectar_def)
  next
    case False
    then have e: "recolectar u ref S = S\<lparr>colmena := c1\<rparr>"
      using v by (simp add: recolectar_def Let_def)
    have m: "nectar_por_contar (S\<lparr>colmena := c1\<rparr>) = nectar_por_contar S"
      by (rule npc_solo_obreras) simp
    show ?thesis
      unfolding e by (rule mismo_nectar_inv [of S]) (use c m assms(3) in simp_all)
  qed
qed

lemma inv_contar:
  assumes "ref < length (obreras S)" and "por_contar (obreras S ! ref) = Some k"
    and "inv_nectar S"
  shows "inv_nectar (contar ref S)"
proof -
  have c: "colmena (contar ref S) = contar_nectar k (id_abeja (obreras S ! ref)) (colmena S)"
    using assms(2) by (simp add: contar_def Let_def)
  have n: "nectar_por_contar (contar ref S) = nectar_por_contar S - k"
    using assms(1,2)
    by (simp add: contar_def Let_def nectar_por_contar_def pendiente_cambia pendiente_def)
  show ?thesis
    unfolding inv_nectar_def c n using assms(3)
    by (simp add: inv_nectar_def contar_nectar_def nectar_en_cola_def incr_def)
qed

lemma inv_trabajar_almacenadora:
  "inv_nectar S \<Longrightarrow> inv_nectar (trabajar_almacenadora ref S)"
  unfolding inv_nectar_def npc_trabajar_almacenadora
  by (auto simp: trabajar_almacenadora_def obtener_nectar_cola_def almacenar_nectar_def
      enviar_mensaje_reina_def Let_def nectar_en_cola_def incr_def
      split: list.splits)

lemma inv_paso_trabajar:
  assumes "ref < length (obreras S)" and "por_contar (obreras S ! ref) = None"
    and "inv_nectar S"
  shows "inv_nectar (paso_trabajar u ref S)"
proof (cases "clase (obreras S ! ref)")
  case Recolectora
  with inv_recolectar [OF assms] show ?thesis
    by (simp add: paso_trabajar_def)
next
  case Almacenadora
  with inv_trabajar_almacenadora [OF assms(3)] show ?thesis
    by (simp add: paso_trabajar_def)
next
  case Nodriza
  have "mismo_nectar (colmena S) (colmena (trabajar_nodriza ref S))"
    using mn_alimentar [of "colmena S" "id_abeja (obreras S ! ref)"]
    by (simp add: trabajar_nodriza_def Let_def split_def mismo_nectar_def enviar_mensaje_reina_def)
  from mismo_nectar_inv [OF this npc_trabajar_nodriza assms(3)] Nodriza show ?thesis
    by (simp add: paso_trabajar_def)
next
  case Defensora
  have "mismo_nectar (colmena S) (colmena (trabajar_defensora ref S))"
    by (simp add: trabajar_defensora_def Let_def mn_neutralizar)
  from mismo_nectar_inv [OF this npc_trabajar_defensora assms(3)] Defensora show ?thesis
    by (simp add: paso_trabajar_def)
qed

lemma inv_nectar_sistemas: "S \<in> sistemas \<Longrightarrow> inv_nectar S"
proof (induction rule: sistemas.induct)
  case (arranque c p n s eq i)
  then show ?case
    by (auto simp: Colmena_init_def colmena_nueva_def Reina_init_def registrar_abeja_def
        inv_nectar_def nectar_en_cola_def nectar_por_contar_def split: if_splits)
next
  case (poblar S c i ref S1)
  show ?case
    by (rule mismo_nectar_inv [of S])
      (use mn_construir [of S c i] npc_construir [of c i S] poblar in simp_all)
next
  case (ciclo_obrera S ref u)
  then show ?case by (simp add: ciclo_def inv_paso_trabajar)
next
  case (cuenta_obrera S ref k)
  then show ?case by (simp add: inv_contar)
next
  case (fin_obrera S ref)
  show ?case
    by (rule mismo_nectar_inv [of S])
      (use mn_al_salir [of "colmena S" "obreras S ! ref"] npc_salir [of ref S] fin_obrera
        in \<open>simp_all add: salir_def\<close>)
next
  case (ciclo_de_reina S a1 a2 i)
  show ?case
    by (rule mismo_nectar_inv [of S])
      (use mn_ciclo_reina [of S a1 a2 i] npc_ciclo_reina [of a1 a2 i S] ciclo_de_reina
        in simp_all)
next
  case (fin_reina S)
  show ?case
    by (rule mismo_nectar_inv [of S])
      (use mn_al_salir [of "colmena S" "reina S"] npc_salir_reina [of S] fin_reina
        in \<open>simp_all add: salir_reina_def\<close>)
qed (auto simp: inv_nectar_def nectar_en_cola_def nectar_por_contar_def cambiar_clima_def
    cambiar_ciclo_dia_def registrar_ataque_def incr_def)

lemma nectar_en_cola_no_negativo:
  "list_all (\<lambda>(k, i). 0 < k) (q :: (int \<times> string) list) \<Longrightarrow> 0 \<le> sum_list (map fst q)"
  by (induction q) auto

lemma sin_lotes_por_contar:
  "list_all (\<lambda>a. por_contar a = None) xs \<Longrightarrow> sum_list (map pendiente xs) = 0"
  by (induction xs) (auto simp: pendiente_def)

text \<open>
  C10 (as the code has it). When the storer has taken a batch from the queue and
  \<open>almacenar_nectar\<close> returns false for it, her work unit leaves the hive exactly as the
  removal left it: the batch is not back in the queue and the counter of stored nectar
  has not moved. In every state of a run the stored nectar is at most the collected
  nectar plus the nectar that foragers have put on the queue and not yet counted; so it
  is at most the collected nectar whenever no forager is between the two halves of
  \<open>agregar_nectar_cola\<close>.
\<close>

theorem nectar_sin_celda_se_pierde:
  "(\<forall>S ref k i c1.
      obtener_nectar_cola (colmena S) = (Some (k, i), c1) \<and>
      \<not> fst (almacenar_nectar k (id_abeja (obreras S ! ref)) c1) \<longrightarrow>
        colmena (trabajar_almacenadora ref S) = c1 \<and>
        queue_nectar c1 = tl (queue_nectar (colmena S)) \<and>
        contador_global c1 Nectar_almacenado = contador_global (colmena S) Nectar_almacenado) \<and>
   (\<forall>S \<in> sistemas.
      contador_global (colmena S) Nectar_almacenado
        \<le> contador_global (colmena S) Nectar_recolectado + nectar_por_contar S) \<and>
   (\<forall>S \<in> sistemas. list_all (\<lambda>a. por_contar a = None) (obreras S) \<longrightarrow>
      contador_global (colmena S) Nectar_almacenado
        \<le> contador_global (colmena S) Nectar_recolectado)"
proof (intro conjI allI impI ballI)
  fix S :: sistema and ref k i c1
  assume h: "obtener_nectar_cola (colmena S) = (Some (k, i), c1) \<and>
      \<not> fst (almacenar_nectar k (id_abeja (obreras S ! ref)) c1)"
  then have a: "almacenar_nectar k (id_abeja (obreras S ! ref)) c1 = (False, c1)"
    by (auto simp: almacenar_nectar_def split: if_splits)
  from h a show "colmena (trabajar_almacenadora ref S) = c1"
    by (simp add: trabajar_almacenadora_def Let_def)
  from h show "queue_nectar c1 = tl (queue_nectar (colmena S))"
    and "contador_global c1 Nectar_almacenado = contador_global (colmena S) Nectar_almacenado"
    by (auto simp: obtener_nectar_cola_def split: list.splits)
next
  fix S :: sistema assume "S \<in> sistemas"
  from inv_nectar_sistemas [OF this]
  show "contador_global (colmena S) Nectar_almacenado
      \<le> contador_global (colmena S) Nectar_recolectado + nectar_por_contar S"
    using nectar_en_cola_no_negativo [of "queue_nectar (colmena S)"]
    by (simp add: inv_nectar_def nectar_en_cola_def)
next
  fix S :: sistema
  assume "S \<in> sistemas" and "list_all (\<lambda>a. por_contar a = None) (obreras S)"
  with inv_nectar_sistemas [of S] sin_lotes_por_contar [of "obreras S"]
  show "contador_global (colmena S) Nectar_almacenado
      \<le> contador_global (colmena S) Nectar_recolectado"
    using nectar_en_cola_no_negativo [of "queue_nectar (colmena S)"]
    by (simp add: inv_nectar_def nectar_en_cola_def nectar_por_contar_def)
qed

lemma ventana_campos:
  "contador_global (colmena sistema_ventana) Nectar_almacenado = 3"
  "contador_global (colmena sistema_ventana) Nectar_recolectado = 0"
  "nectar_por_contar sistema_ventana = 3"
  "0 < length (obreras sistema_ventana)"
  "por_contar (obreras sistema_ventana ! 0) = Some 3"
  by code_simp+

lemma contado_campos:
  "contador_global (colmena sistema_contado) Nectar_almacenado = 3"
  "contador_global (colmena sistema_contado) Nectar_recolectado = 3"
  "list_all (\<lambda>a. por_contar a = None) (obreras sistema_contado)"
  by code_simp+

lemma ventana_sistemas: "sistema_ventana \<in> sistemas"
proof -
  let ?S0 = "lanzar_abejas [(Recolectora, ''r1''), (Almacenadora, ''a1'')] sistema_inicial"
  have s0: "?S0 \<in> sistemas"
    by (intro lanzar_abejas_sistemas sistema_inicial_sistemas)
  have "0 < length (obreras ?S0)" "sigue (obreras ?S0 ! 0) (colmena ?S0)"
    "por_contar (obreras ?S0 ! 0) = None"
    by code_simp+
  with s0 have s1: "ciclo 3 0 ?S0 \<in> sistemas"
    by (rule sistemas.ciclo_obrera)
  have "1 < length (obreras (ciclo 3 0 ?S0))"
    "sigue (obreras (ciclo 3 0 ?S0) ! 1) (colmena (ciclo 3 0 ?S0))"
    "por_contar (obreras (ciclo 3 0 ?S0) ! 1) = None"
    by code_simp+
  with s1 show ?thesis
    unfolding sistema_ventana_def by (rule sistemas.ciclo_obrera)
qed

lemma contado_sistemas: "sistema_contado \<in> sistemas"
  unfolding sistema_contado_def
  using ventana_sistemas ventana_campos(4,5) by (rule sistemas.cuenta_obrera)

theorem nectar_sin_celda_se_pierde_witness:
  "fst (obtener_nectar_cola (colmena sistema_sin_celdas)) = Some (3, ''r1'') \<and>
   \<not> fst (almacenar_nectar 3 ''a1'' (snd (obtener_nectar_cola (colmena sistema_sin_celdas)))) \<and>
   queue_nectar (colmena sistema_sin_celdas) = [(3, ''r1'')] \<and>
   queue_nectar (colmena (trabajar_almacenadora 1 sistema_sin_celdas)) = [] \<and>
   contador_global (colmena (trabajar_almacenadora 1 sistema_sin_celdas)) Nectar_almacenado = 0 \<and>
   sistema_ventana \<in> sistemas \<and> nectar_por_contar sistema_ventana = 3 \<and>
   contador_global (colmena sistema_ventana) Nectar_almacenado
     \<le> contador_global (colmena sistema_ventana) Nectar_recolectado + nectar_por_contar sistema_ventana \<and>
   sistema_contado \<in> sistemas \<and>
   list_all (\<lambda>a. por_contar a = None) (obreras sistema_contado) \<and>
   contador_global (colmena sistema_contado) Nectar_almacenado = 3 \<and>
   contador_global (colmena sistema_contado) Nectar_almacenado
     \<le> contador_global (colmena sistema_contado) Nectar_recolectado"
proof -
  let ?c1 = "snd (obtener_nectar_cola (colmena sistema_sin_celdas))"
  have o: "obtener_nectar_cola (colmena sistema_sin_celdas) = (Some (3, ''r1''), ?c1)"
    using sin_celdas_1 by (simp add: prod_eq_iff)
  from nectar_sin_celda_se_pierde
  have 1: "obtener_nectar_cola (colmena sistema_sin_celdas) = (Some (3, ''r1''), ?c1) \<and>
      \<not> fst (almacenar_nectar 3 (id_abeja (obreras sistema_sin_celdas ! 1)) ?c1) \<longrightarrow>
        colmena (trabajar_almacenadora 1 sistema_sin_celdas) = ?c1 \<and>
        queue_nectar ?c1 = tl (queue_nectar (colmena sistema_sin_celdas)) \<and>
        contador_global ?c1 Nectar_almacenado = contador_global (colmena sistema_sin_celdas) Nectar_almacenado"
    and 2: "contador_global (colmena sistema_ventana) Nectar_almacenado
     \<le> contador_global (colmena sistema_ventana) Nectar_recolectado + nectar_por_contar sistema_ventana"
    and 3: "list_all (\<lambda>a. por_contar a = None) (obreras sistema_contado) \<longrightarrow>
      contador_global (colmena sistema_contado) Nectar_almacenado
        \<le> contador_global (colmena sistema_contado) Nectar_recolectado"
    using ventana_sistemas contado_sistemas by blast+
  from 1 o sin_celdas_2 sin_celdas_3 sin_celdas_4
  have "colmena (trabajar_almacenadora 1 sistema_sin_celdas) = ?c1"
    "queue_nectar ?c1 = []" "contador_global ?c1 Nectar_almacenado = 0"
    by simp_all
  with sin_celdas_1 sin_celdas_3 sin_celdas_4 2 3 ventana_sistemas contado_sistemas
    ventana_campos(3) contado_campos(1,3)
  show ?thesis by simp
qed

text \<open>
  The claim as it was stated fails between the two halves of \<open>agregar_nectar_cola\<close>: a
  forager has put a batch of 3 on the queue, a storer has taken and stored it, and the
  forager has not counted it yet, so 3 units are stored and none is collected.
\<close>

theorem nectar_almacenado_sin_contar:
  "sistema_ventana \<in> sistemas \<and>
   contador_global (colmena sistema_ventana) Nectar_almacenado = 3 \<and>
   contador_global (colmena sistema_ventana) Nectar_recolectado = 0 \<and>
   \<not> contador_global (colmena sistema_ventana) Nectar_almacenado
       \<le> contador_global (colmena sistema_ventana) Nectar_recolectado"
  using ventana_sistemas ventana_campos(1,2) by simp

subsection \<open>The census and the bees alive\<close>

lemma dd_get_Nil: "dd_get [] k = 0"
  by (simp add: dd_get_def)

lemma dd_get_Cons: "dd_get ((k, v) # d) k' = (if k = k' then v else dd_get d k')"
  by (simp add: dd_get_def)

lemma dd_get_sumar: "dd_get (dd_sumar d k v) k' = (if k' = k then dd_get d k + v else dd_get d k')"
  by (induction d) (auto simp: dd_get_def)

lemma sum_dd_sumar: "sum_list (map snd (dd_sumar d k v)) = sum_list (map snd d) + v"
  by (induction d) auto

lemma ex_construir: "exceso (snd (construir c i S)) = exceso S"
  by (simp add: exceso_def censo_total_def construir_def registrar_abeja_def
      obtener_distribucion_roles_def sum_dd_sumar)

lemma ex_agregar [simp]: "exceso (agregar_abeja ref S) = exceso S"
  by (simp add: exceso_def censo_total_def agregar_abeja_def)

lemma ex_cambiar_rol: "exceso (cambiar_rol ref r S) = exceso S"
  by (simp add: exceso_def censo_total_def cambiar_rol_def Let_def cambiar_rol_abeja_def
      obtener_distribucion_roles_def sum_dd_sumar)

lemma exceso_solo_censo:
  "abejas_por_rol (colmena S') = abejas_por_rol (colmena S) \<Longrightarrow>
   length (obreras S') = length (obreras S) \<Longrightarrow> exceso S' = exceso S"
  by (simp add: exceso_def censo_total_def obtener_distribucion_roles_def)

lemma ex_crear_abeja: "exceso (snd (crear_abeja r i S)) = exceso S"
  by (simp add: crear_abeja_def split_def Let_def ex_construir split: option.splits)

lemma ex_procesar: "exceso (procesar_mensaje m i S) = exceso S"
proof (cases m)
  case (Muerte r j)
  let ?S' = "S\<lparr>reina := (reina S)\<lparr>abejas_activas := dict_quitar (abejas_activas (reina S)) j\<rparr>\<rparr>"
  have "exceso ?S' = exceso S" by (rule exceso_solo_censo) simp_all
  with ex_crear_abeja [of r i ?S'] ex_crear_abeja [of r i S] show ?thesis
    by (simp add: Muerte procesar_mensaje_def reemplazar_abeja_muerta_def Let_def)
next
  case (Inactiva r j n)
  then show ?thesis
    by (simp add: procesar_mensaje_def ex_cambiar_rol split: option.splits)
next
  case (Falta_alimento r j)
  have "exceso (S\<lparr>colmena := enviar_mensaje_reina Necesidad_nectar (colmena S)\<rparr>) = exceso S"
    by (rule exceso_solo_censo) (simp_all add: enviar_mensaje_reina_def)
  with Falta_alimento show ?thesis by (simp add: procesar_mensaje_def)
next
  case Necesidad_nectar
  then show ?thesis by (simp add: procesar_mensaje_def)
qed

lemma ex_reasignar: "reasignar_roles S = Inr (b, S') \<Longrightarrow> exceso S' = exceso S"
  by (auto simp: reasignar_roles_def ex_cambiar_rol split: sum.splits if_splits option.splits prod.splits)

lemma ex_salir_reina: "exceso (salir_reina S) = exceso S"
  by (rule exceso_solo_censo) (simp_all add: salir_reina_def al_salir_def enviar_mensaje_reina_def)

lemma ex_salir: "exceso (salir ref S) = exceso S"
  by (rule exceso_solo_censo) (simp_all add: salir_def al_salir_def enviar_mensaje_reina_def)

lemma ex_trabajar_reina: "exceso (snd (trabajar_reina a1 a2 i S)) = exceso S"
proof -
  obtain m c1 where o: "obtener_mensaje_reina (colmena S) = (m, c1)"
    by (cases "obtener_mensaje_reina (colmena S)")
  let ?S1 = "S\<lparr>colmena := c1\<rparr>"
  let ?S2 = "case m of Some m' \<Rightarrow> procesar_mensaje m' i ?S1 | None \<Rightarrow> ?S1"
  have "abejas_por_rol c1 = abejas_por_rol (colmena S)"
    using o by (auto simp: obtener_mensaje_reina_def split: list.splits)
  then have 1: "exceso ?S1 = exceso S"
    by (intro exceso_solo_censo) simp_all
  have 2: "exceso ?S2 = exceso S"
    using 1 by (cases m) (simp_all add: ex_procesar)
  show ?thesis
  proof (cases "reasignar_roles ?S2")
    case (Inl e)
    with 2 show ?thesis by (simp add: trabajar_reina_def o Let_def)
  next
    case (Inr p)
    obtain b S3 where p: "p = (b, S3)" by (cases p)
    from ex_reasignar [of ?S2 b S3] Inr p 2 have "exceso S3 = exceso S"
      by simp
    with 2 Inr p show ?thesis by (simp add: trabajar_reina_def o Let_def)
  qed
qed

lemma ex_ciclo_reina: "exceso (ciclo_reina a1 a2 i S) = exceso S"
proof -
  obtain e S1 where t: "trabajar_reina a1 a2 i S = (e, S1)"
    by (cases "trabajar_reina a1 a2 i S")
  from ex_trabajar_reina [of a1 a2 i S] t have 1: "exceso S1 = exceso S"
    by simp
  with ex_salir_reina [of S1] t show ?thesis
    by (simp add: ciclo_reina_def split: option.splits)
qed

lemma ex_paso_trabajar: "exceso (paso_trabajar u ref S) = exceso S"
proof (rule exceso_solo_censo)
  show "abejas_por_rol (colmena (paso_trabajar u ref S)) = abejas_por_rol (colmena S)"
    by (cases "clase (obreras S ! ref)")
      (simp_all add: paso_trabajar_def recolectar_def trabajar_almacenadora_def
        trabajar_nodriza_def trabajar_defensora_def colmena_defs Let_def split_def
        split: option.splits list.splits)
  show "length (obreras (paso_trabajar u ref S)) = length (obreras S)"
    by (cases "clase (obreras S ! ref)")
      (simp_all add: paso_trabajar_def recolectar_def trabajar_almacenadora_def
        trabajar_nodriza_def trabajar_defensora_def Let_def split_def
        split: option.splits)
qed

lemma ex_contar: "exceso (contar ref S) = exceso S"
  by (rule exceso_solo_censo)
    (simp_all add: contar_def contar_nectar_def Let_def split: option.splits)

lemma censo_cuenta_construidas:
  "S \<in> sistemas \<Longrightarrow> censo_total S = int (length (obreras S)) + 1"
proof -
  have "S \<in> sistemas \<Longrightarrow> exceso S = 1"
  proof (induction rule: sistemas.induct)
    case (arranque c p n s eq i)
    then show ?case
      by (auto simp: exceso_def censo_total_def Reina_init_def Colmena_init_def colmena_nueva_def
          registrar_abeja_def obtener_distribucion_roles_def split: if_splits)
  next
    case (poblar S c i ref S1)
    with ex_construir [of c i S] show ?case by simp
  next
    case (ciclo_obrera S ref u)
    then show ?case by (simp add: ciclo_def ex_paso_trabajar)
  next
    case (cuenta_obrera S ref k)
    then show ?case by (simp add: ex_contar)
  next
    case (fin_obrera S ref)
    then show ?case by (simp add: ex_salir)
  next
    case (ciclo_de_reina S a1 a2 i)
    then show ?case by (simp add: ex_ciclo_reina)
  next
    case (fin_reina S)
    then show ?case by (simp add: ex_salir_reina)
  qed (simp_all add: exceso_def censo_total_def obtener_distribucion_roles_def
      cambiar_clima_def cambiar_ciclo_dia_def registrar_ataque_def)
  then show "S \<in> sistemas \<Longrightarrow> censo_total S = int (length (obreras S)) + 1"
    by (simp add: exceso_def)
qed

lemma nodriza_muerta_sistemas: "sistema_nodriza_muerta \<in> sistemas"
  unfolding sistema_nodriza_muerta_def
  using una_nodriza_sistemas una_nodriza_campos(1,2,5) by (rule sistemas.fin_obrera)

lemma reemplazo_sistemas: "sistema_reemplazo \<in> sistemas"
  unfolding sistema_reemplazo_def
  by (rule sistemas.ciclo_de_reina [OF nodriza_muerta_sistemas]) code_simp

lemma reemplazo_es_procesar:
  "sistema_reemplazo =
     procesar_mensaje (Muerte ''nodriza'' ''n1'') ''n2''
       (sistema_nodriza_muerta\<lparr>colmena :=
          snd (obtener_mensaje_reina (colmena sistema_nodriza_muerta))\<rparr>)"
  by (simp add: sistema_reemplazo_def ciclo_reina_def trabajar_reina_def descansa_def
      sistema_nodriza_muerta_def salir_def sistema_una_nodriza_def sistema_inicial_def
      Reina_init_def construir_def agregar_abeja_def al_salir_def colmena_nueva_def
      registrar_abeja_def enviar_mensaje_reina_def obtener_mensaje_reina_def Let_def
      nueva_obrera_def)

text \<open>
  C1 (the code at the death of a bee). In the run with one nurse, the census sums to 2
  and 2 bees are alive once she is built. When she leaves \<open>run\<close> the census still sums
  to 2 although only the queen is alive, and once the queen has replaced her the census
  sums to 3 with 2 bees alive: the census counts the bees ever built, not the bees alive.
\<close>

theorem censo_no_baja_al_morir:
  "sistema_una_nodriza \<in> sistemas \<and>
   censo_total sistema_una_nodriza = 2 \<and> vivas sistema_una_nodriza = 2 \<and>
   sistema_nodriza_muerta \<in> sistemas \<and> sistema_nodriza_muerta = salir 0 sistema_una_nodriza \<and>
   censo_total sistema_nodriza_muerta = 2 \<and> vivas sistema_nodriza_muerta = 1 \<and>
   sistema_reemplazo \<in> sistemas \<and>
   censo_total sistema_reemplazo = 3 \<and> vivas sistema_reemplazo = 2"
proof -
  have "censo_total sistema_una_nodriza = 2" "vivas sistema_una_nodriza = 2"
    "censo_total sistema_nodriza_muerta = 2" "vivas sistema_nodriza_muerta = 1"
    "censo_total sistema_reemplazo = 3" "vivas sistema_reemplazo = 2"
    by code_simp+
  then show ?thesis
    using una_nodriza_sistemas nodriza_muerta_sistemas reemplazo_sistemas
    by (simp add: sistema_nodriza_muerta_def)
qed

subsection \<open>A death message\<close>

lemma length_dict_quitar:
  "distinct (map fst d) \<Longrightarrow> map_of d k = Some v \<Longrightarrow> Suc (length (dict_quitar d k)) = length d"
proof (induction d)
  case Nil
  then show ?case by simp
next
  case (Cons a d)
  show ?case
  proof (cases "fst a = k")
    case True
    with Cons.prems have "k \<notin> fst ` set d" by auto
    then have "filter (\<lambda>(k', _). k' \<noteq> k) d = d"
      by (intro filter_True) force
    with True show ?thesis by (simp add: dict_quitar_def split_def)
  next
    case False
    with Cons show ?thesis by (auto simp: dict_quitar_def split_def)
  qed
qed

lemma claves_dict_quitar: "fst ` set (dict_quitar d k) = fst ` set d - {k}"
  by (auto simp: dict_quitar_def)

lemma length_dict_poner:
  "k \<notin> fst ` set d \<Longrightarrow> length (dict_poner d k v) = Suc (length d)"
  by (induction d) force+

lemma fabrica_rol_de: "fabrica_abejas r = Some c \<Longrightarrow> rol_de c = r"
  by (auto simp: fabrica_abejas_def split: if_splits)

lemma crear_abeja_campos:
  assumes "fabrica_abejas r = Some c"
  shows "abejas_por_rol (colmena (snd (crear_abeja r i S))) = dd_sumar (abejas_por_rol (colmena S)) r 1"
    and "abejas_activas (reina (snd (crear_abeja r i S))) =
           dict_poner (abejas_activas (reina S)) i (length (obreras S))"
  using assms fabrica_rol_de [OF assms]
  by (simp_all add: crear_abeja_def construir_def agregar_abeja_def registrar_abeja_def
      nueva_obrera_def)

lemma procesar_muerte_censo:
  assumes "fabrica_abejas r = Some c"
  shows "dd_get (abejas_por_rol (colmena (procesar_mensaje (Muerte r x) nuevo_id S))) r =
           dd_get (abejas_por_rol (colmena S)) r + 1"
  using crear_abeja_campos(1) [OF assms]
  by (simp add: procesar_mensaje_def reemplazar_abeja_muerta_def Let_def dd_get_sumar)

lemma procesar_muerte_registro:
  assumes "fabrica_abejas r = Some c"
    and "distinct (map fst (abejas_activas (reina S)))"
    and "map_of (abejas_activas (reina S)) x = Some ref"
    and "nuevo_id \<notin> fst ` set (abejas_activas (reina S)) - {x}"
  shows "length (abejas_activas (reina (procesar_mensaje (Muerte r x) nuevo_id S))) =
           length (abejas_activas (reina S))"
proof -
  let ?S1 = "S\<lparr>reina := (reina S)\<lparr>abejas_activas := dict_quitar (abejas_activas (reina S)) x\<rparr>\<rparr>"
  have p: "procesar_mensaje (Muerte r x) nuevo_id S = snd (crear_abeja r nuevo_id ?S1)"
    using assms(3) by (simp add: procesar_mensaje_def reemplazar_abeja_muerta_def Let_def)
  have "nuevo_id \<notin> fst ` set (dict_quitar (abejas_activas (reina S)) x)"
    using assms(4) by (simp add: claves_dict_quitar)
  then have "length (dict_poner (dict_quitar (abejas_activas (reina S)) x) nuevo_id (length (obreras S))) =
      Suc (length (dict_quitar (abejas_activas (reina S)) x))"
    by (rule length_dict_poner)
  with length_dict_quitar [OF assms(2,3)] show ?thesis
    unfolding p using crear_abeja_campos(2) [OF assms(1), of nuevo_id ?S1] by simp
qed

text \<open>
  C3 (the code at a death message). In the run with one nurse, the dead nurse has left
  the message \<open>Muerte nodriza n1\<close> and the census sums to 2. Processing the message
  replaces the entry \<open>n1\<close> of the registry by the entry of the new nurse \<open>n2\<close>, so the
  registry keeps its size, but the census of the nurses goes from 1 to 2.
\<close>

theorem reemplazo_sube_el_censo:
  "sistema_nodriza_muerta \<in> sistemas \<and>
   queue_reina (colmena sistema_nodriza_muerta) = [Muerte ''nodriza'' ''n1''] \<and>
   0 < censo_total sistema_nodriza_muerta \<and>
   sistema_reemplazo =
     procesar_mensaje (Muerte ''nodriza'' ''n1'') ''n2''
       (sistema_nodriza_muerta\<lparr>colmena :=
          snd (obtener_mensaje_reina (colmena sistema_nodriza_muerta))\<rparr>) \<and>
   abejas_activas (reina sistema_nodriza_muerta) = [(''n1'', 0)] \<and>
   abejas_activas (reina sistema_reemplazo) = [(''n2'', 1)] \<and>
   dd_get (abejas_por_rol (colmena sistema_nodriza_muerta)) ''nodriza'' = 1 \<and>
   dd_get (abejas_por_rol (colmena sistema_reemplazo)) ''nodriza'' = 2 \<and>
   length (filter viva (filter (\<lambda>a. rol a = ''nodriza'') (obreras sistema_reemplazo))) = 1"
proof -
  have "queue_reina (colmena sistema_nodriza_muerta) = [Muerte ''nodriza'' ''n1'']"
    "0 < censo_total sistema_nodriza_muerta"
    "abejas_activas (reina sistema_nodriza_muerta) = [(''n1'', 0)]"
    "abejas_activas (reina sistema_reemplazo) = [(''n2'', 1)]"
    "dd_get (abejas_por_rol (colmena sistema_nodriza_muerta)) ''nodriza'' = 1"
    "dd_get (abejas_por_rol (colmena sistema_reemplazo)) ''nodriza'' = 2"
    "length (filter viva (filter (\<lambda>a. rol a = ''nodriza'') (obreras sistema_reemplazo))) = 1"
    by code_simp+
  then show ?thesis
    using nodriza_muerta_sistemas reemplazo_es_procesar by simp
qed

subsection \<open>Rebalancing the roles\<close>

lemma mejor_en_lista: "mejor lt b xs \<in> set (b # xs)"
  by (induction xs arbitrary: b) auto

lemma py_max_en_lista: "py_max d = Some m \<Longrightarrow> m \<in> set d"
  using mejor_en_lista [of desv_lt] by (auto simp: py_max_def split: list.splits)

lemma py_min_en_lista: "py_min d = Some m \<Longrightarrow> m \<in> set d"
  using mejor_en_lista [of "\<lambda>a b. desv_lt b a"] by (auto simp: py_min_def split: list.splits)

lemma identificar_sin_exceso:
  assumes "\<forall>(r, d) \<in> set (diferencias (equilibrio_ideal (reina S)) (abejas_por_rol (colmena S))).
             \<not> desv_lt (Fin (1 / 10)) d"
    and "equilibrio_ideal (reina S) \<noteq> []"
  shows "identificar_desequilibrio S = Inr (None, None)"
proof -
  let ?difs = "diferencias (equilibrio_ideal (reina S)) (abejas_por_rol (colmena S))"
  have ne: "?difs \<noteq> []"
    using assms(2) by (simp add: diferencias_def Let_def)
  then obtain x xs where d: "?difs = x # xs" by (cases ?difs) auto
  obtain r\<^sub>1 d\<^sub>1 where mx: "py_max ?difs = Some (r\<^sub>1, d\<^sub>1)"
    by (cases "mejor desv_lt x xs") (simp add: py_max_def d)
  obtain r\<^sub>2 d\<^sub>2 where mn: "py_min ?difs = Some (r\<^sub>2, d\<^sub>2)"
    by (cases "mejor (\<lambda>a b. desv_lt b a) x xs") (simp add: py_min_def d)
  from py_max_en_lista [OF mx] assms(1) have "\<not> desv_lt (Fin (1 / 10)) d\<^sub>1"
    by auto
  then show ?thesis
    by (simp add: identificar_desequilibrio_def obtener_distribucion_roles_def Let_def mx mn)
qed

lemma identificar_equilibrado:
  assumes "list_all (\<lambda>(r, d). \<not> desv_lt (Fin (1 / 10)) d \<and> \<not> desv_lt d (Fin (- (1 / 10))))
             (diferencias (equilibrio_ideal (reina S)) (abejas_por_rol (colmena S)))"
  shows "identificar_desequilibrio S =
           (if equilibrio_ideal (reina S) = [] \<and> censo_total S \<noteq> 0 then Inl ValueError
            else Inr (None, None))"
proof (cases "equilibrio_ideal (reina S) = []")
  case True
  then show ?thesis
    by (simp add: identificar_desequilibrio_def censo_total_def obtener_distribucion_roles_def
        diferencias_def py_max_def py_min_def Let_def)
next
  case False
  from assms have "\<forall>(r, d) \<in> set (diferencias (equilibrio_ideal (reina S)) (abejas_por_rol (colmena S))).
             \<not> desv_lt (Fin (1 / 10)) d"
    by (auto simp: list_all_iff)
  from identificar_sin_exceso [OF this False] False show ?thesis by simp
qed

text \<open>
  C7. When no deviation computed by the queen is above 0.1 and none is below -0.1,
  \<open>reasignar_roles\<close> changes nothing: it returns false with the state it was given (the
  census and every bee as before). Only a queen with an empty table of ratios, which
  \<open>Reina_init\<close> never builds, raises instead, and she has changed nothing either.
\<close>

theorem reasignar_sin_desequilibrio:
  assumes "list_all (\<lambda>(r, d). \<not> desv_lt (Fin (1 / 10)) d \<and> \<not> desv_lt d (Fin (- (1 / 10))))
             (diferencias (equilibrio_ideal (reina S)) (abejas_por_rol (colmena S)))"
  shows "reasignar_roles S =
           (if equilibrio_ideal (reina S) = [] \<and> censo_total S \<noteq> 0 then Inl ValueError
            else Inr (False, S))"
  using identificar_equilibrado [OF assms] by (simp add: reasignar_roles_def)

lemma equilibrado_1:
  "diferencias (equilibrio_ideal (reina sistema_equilibrado)) (abejas_por_rol (colmena sistema_equilibrado)) =
     [(''recolectora'', Fin 0), (''almacenadora'', Fin 0), (''nodriza'', Fin 0), (''defensora'', Fin 0)]"
  by code_simp

lemma equilibrado_2:
  "equilibrio_ideal (reina sistema_equilibrado) \<noteq> []"
  "abejas_por_rol (colmena sistema_equilibrado) = [(''reina'', 1), (''recolectora'', 1)]"
  by code_simp+

lemma equilibrado_sistemas: "sistema_equilibrado \<in> sistemas"
  unfolding sistema_equilibrado_def by (intro lanzar_abejas_sistemas sistema_inicial_sistemas)

theorem reasignar_sin_desequilibrio_witness:
  "sistema_equilibrado \<in> sistemas \<and>
   abejas_por_rol (colmena sistema_equilibrado) = [(''reina'', 1), (''recolectora'', 1)] \<and>
   diferencias (equilibrio_ideal (reina sistema_equilibrado)) (abejas_por_rol (colmena sistema_equilibrado)) =
     [(''recolectora'', Fin 0), (''almacenadora'', Fin 0), (''nodriza'', Fin 0), (''defensora'', Fin 0)] \<and>
   list_all (\<lambda>(r, d). \<not> desv_lt (Fin (1 / 10)) d \<and> \<not> desv_lt d (Fin (- (1 / 10))))
     (diferencias (equilibrio_ideal (reina sistema_equilibrado))
        (abejas_por_rol (colmena sistema_equilibrado))) \<and>
   reasignar_roles sistema_equilibrado = Inr (False, sistema_equilibrado)"
proof -
  have h: "list_all (\<lambda>(r, d). \<not> desv_lt (Fin (1 / 10)) d \<and> \<not> desv_lt d (Fin (- (1 / 10))))
          (diferencias (equilibrio_ideal (reina sistema_equilibrado))
             (abejas_por_rol (colmena sistema_equilibrado)))"
    unfolding equilibrado_1 by simp
  from reasignar_sin_desequilibrio [OF h] equilibrado_2(1)
  have "reasignar_roles sistema_equilibrado = Inr (False, sistema_equilibrado)"
    by simp
  with h equilibrado_1 equilibrado_2(2) equilibrado_sistemas show ?thesis
    by simp
qed

lemma py_round_14_5: "py_round (14 / 5) = 3" by code_simp
lemma py_round_7_4: "py_round (7 / 4) = 2" by code_simp
lemma py_round_7_10: "py_round (7 / 10) = 1" by code_simp

lemma diferencias_C:
  assumes "dd_get d ''recolectora'' = 4" "dd_get d ''almacenadora'' = 1"
    "dd_get d ''nodriza'' = 1" "dd_get d ''defensora'' = 1" "sum_list (map snd d) = 7"
  shows "calcular_roles_ideales equilibrio_por_defecto (sum_list (map snd d)) =
           [(''recolectora'', 3), (''almacenadora'', 2), (''nodriza'', 2), (''defensora'', 1)]"
    and "diferencias equilibrio_por_defecto d =
           [(''recolectora'', Fin (1 / 3)), (''almacenadora'', Fin (- (1 / 2))),
            (''nodriza'', Fin (- (1 / 2))), (''defensora'', Fin 0)]"
proof -
  show a: "calcular_roles_ideales equilibrio_por_defecto (sum_list (map snd d)) =
           [(''recolectora'', 3), (''almacenadora'', 2), (''nodriza'', 2), (''defensora'', 1)]"
    by (simp add: assms calcular_roles_ideales_def equilibrio_por_defecto_def py_round_14_5 py_round_7_4 py_round_7_10)
  show "diferencias equilibrio_por_defecto d =
           [(''recolectora'', Fin (1 / 3)), (''almacenadora'', Fin (- (1 / 2))),
            (''nodriza'', Fin (- (1 / 2))), (''defensora'', Fin 0)]"
    unfolding diferencias_def Let_def a
    by (simp add: assms equilibrio_por_defecto_def dd_get_Nil dd_get_Cons diferencia_def)
qed

lemma identificar_C:
  assumes "dd_get (abejas_por_rol (colmena S)) ''recolectora'' = 4"
    "dd_get (abejas_por_rol (colmena S)) ''almacenadora'' = 1"
    "dd_get (abejas_por_rol (colmena S)) ''nodriza'' = 1"
    "dd_get (abejas_por_rol (colmena S)) ''defensora'' = 1"
    "sum_list (map snd (abejas_por_rol (colmena S))) = 7"
    "equilibrio_ideal (reina S) = equilibrio_por_defecto"
  shows "identificar_desequilibrio S = Inr (Some ''recolectora'', Some ''almacenadora'')"
  using diferencias_C(2) [OF assms(1-5)] assms(5,6)
  by (simp add: identificar_desequilibrio_def obtener_distribucion_roles_def Let_def
      py_max_def py_min_def)

lemma find_registro:
  assumes "list_ex (\<lambda>(i, ref). P ref) reg"
  shows "\<exists>i ref. find (\<lambda>(i, ref). P ref) reg = Some (i, ref) \<and> (i, ref) \<in> set reg \<and> P ref"
  using assms by (induction reg) (auto split: if_splits)

text \<open>
  C6. With the census recolectora 4, almacenadora 1, nodriza 1, defensora 1 (7 bees), the
  default ratios, and a registry whose references are valid and hold at least one bee
  whose role is recolectora: the ideal numbers are 3, 2, 2, 1, the deviations are 1/3,
  -1/2, -1/2, 0, the surplus role is recolectora (1/3 is above 0.1) and the deficit role
  almacenadora (-1/2 is below -0.1), and \<open>reasignar_roles\<close> returns true after changing the
  role of exactly one registered recolectora to almacenadora, so that the census is
  recolectora 3, almacenadora 2, nodriza 1, defensora 1.
\<close>

theorem escenario_C:
  assumes "dd_get (abejas_por_rol (colmena S)) ''recolectora'' = 4"
    and "dd_get (abejas_por_rol (colmena S)) ''almacenadora'' = 1"
    and "dd_get (abejas_por_rol (colmena S)) ''nodriza'' = 1"
    and "dd_get (abejas_por_rol (colmena S)) ''defensora'' = 1"
    and "sum_list (map snd (abejas_por_rol (colmena S))) = 7"
    and "equilibrio_ideal (reina S) = equilibrio_por_defecto"
    and "list_all (\<lambda>(i, ref). ref < length (obreras S)) (abejas_activas (reina S))"
    and "list_ex (\<lambda>(i, ref). rol (obreras S ! ref) = ''recolectora'') (abejas_activas (reina S))"
  shows "calcular_roles_ideales (equilibrio_ideal (reina S)) 7 =
           [(''recolectora'', 3), (''almacenadora'', 2), (''nodriza'', 2), (''defensora'', 1)] \<and>
         diferencias (equilibrio_ideal (reina S)) (abejas_por_rol (colmena S)) =
           [(''recolectora'', Fin (1 / 3)), (''almacenadora'', Fin (- (1 / 2))),
            (''nodriza'', Fin (- (1 / 2))), (''defensora'', Fin 0)] \<and>
         desv_lt (Fin (1 / 10)) (Fin (1 / 3)) \<and> desv_lt (Fin (- (1 / 2))) (Fin (- (1 / 10))) \<and>
         identificar_desequilibrio S = Inr (Some ''recolectora'', Some ''almacenadora'') \<and>
         (\<exists>ref S'. reasignar_roles S = Inr (True, S') \<and>
            ref < length (obreras S) \<and> rol (obreras S ! ref) = ''recolectora'' \<and>
            obreras S' = (obreras S)[ref := (obreras S ! ref)\<lparr>rol := ''almacenadora''\<rparr>] \<and>
            abejas_por_rol (colmena S') =
              dd_sumar (dd_sumar (abejas_por_rol (colmena S)) ''recolectora'' (- 1)) ''almacenadora'' 1 \<and>
            dd_get (abejas_por_rol (colmena S')) ''recolectora'' = 3 \<and>
            dd_get (abejas_por_rol (colmena S')) ''almacenadora'' = 2 \<and>
            dd_get (abejas_por_rol (colmena S')) ''nodriza'' = 1 \<and>
            dd_get (abejas_por_rol (colmena S')) ''defensora'' = 1 \<and>
            sum_list (map snd (abejas_por_rol (colmena S'))) = 7 \<and>
            contador_global (colmena S') Cambios_rol = contador_global (colmena S) Cambios_rol + 1)"
proof -
  let ?c = "abejas_por_rol (colmena S)"
  have a: "calcular_roles_ideales (equilibrio_ideal (reina S)) 7 =
           [(''recolectora'', 3), (''almacenadora'', 2), (''nodriza'', 2), (''defensora'', 1)]"
    using diferencias_C(1) [OF assms(1-5)] assms(5,6) by simp
  have b: "diferencias (equilibrio_ideal (reina S)) ?c =
           [(''recolectora'', Fin (1 / 3)), (''almacenadora'', Fin (- (1 / 2))),
            (''nodriza'', Fin (- (1 / 2))), (''defensora'', Fin 0)]"
    using diferencias_C(2) [OF assms(1-5)] assms(6) by simp
  have c: "identificar_desequilibrio S = Inr (Some ''recolectora'', Some ''almacenadora'')"
    using assms(1-6) by (rule identificar_C)
  from find_registro [of "\<lambda>ref. rol (obreras S ! ref) = ''recolectora''", OF assms(8)]
  obtain i ref where f:
    "find (\<lambda>(i, ref). rol (obreras S ! ref) = ''recolectora'')
       (abejas_activas (reina S)) = Some (i, ref)"
    "(i, ref) \<in> set (abejas_activas (reina S))" "rol (obreras S ! ref) = ''recolectora''"
    by auto
  from f(2) assms(7) have l: "ref < length (obreras S)"
    by (auto simp: list_all_iff)
  let ?S' = "cambiar_rol ref ''almacenadora'' S"
  have r: "reasignar_roles S = Inr (True, ?S')"
    by (simp add: reasignar_roles_def c f(1))
  have o: "obreras ?S' = (obreras S)[ref := (obreras S ! ref)\<lparr>rol := ''almacenadora''\<rparr>]"
    by (simp add: cambiar_rol_def Let_def)
  have p: "abejas_por_rol (colmena ?S') =
      dd_sumar (dd_sumar ?c ''recolectora'' (- 1)) ''almacenadora'' 1"
    by (simp add: cambiar_rol_def Let_def cambiar_rol_abeja_def f(3))
  have g: "dd_get (abejas_por_rol (colmena ?S')) ''recolectora'' = 3"
    "dd_get (abejas_por_rol (colmena ?S')) ''almacenadora'' = 2"
    "dd_get (abejas_por_rol (colmena ?S')) ''nodriza'' = 1"
    "dd_get (abejas_por_rol (colmena ?S')) ''defensora'' = 1"
    "sum_list (map snd (abejas_por_rol (colmena ?S'))) = 7"
    unfolding p using assms(1-5) by (simp_all add: dd_get_sumar sum_dd_sumar)
  have k: "contador_global (colmena ?S') Cambios_rol = contador_global (colmena S) Cambios_rol + 1"
    by (simp add: cambiar_rol_def Let_def cambiar_rol_abeja_def incr_def)
  from r l f(3) o p g k
  have "\<exists>ref S'. reasignar_roles S = Inr (True, S') \<and>
            ref < length (obreras S) \<and> rol (obreras S ! ref) = ''recolectora'' \<and>
            obreras S' = (obreras S)[ref := (obreras S ! ref)\<lparr>rol := ''almacenadora''\<rparr>] \<and>
            abejas_por_rol (colmena S') =
              dd_sumar (dd_sumar (abejas_por_rol (colmena S)) ''recolectora'' (- 1)) ''almacenadora'' 1 \<and>
            dd_get (abejas_por_rol (colmena S')) ''recolectora'' = 3 \<and>
            dd_get (abejas_por_rol (colmena S')) ''almacenadora'' = 2 \<and>
            dd_get (abejas_por_rol (colmena S')) ''nodriza'' = 1 \<and>
            dd_get (abejas_por_rol (colmena S')) ''defensora'' = 1 \<and>
            sum_list (map snd (abejas_por_rol (colmena S'))) = 7 \<and>
            contador_global (colmena S') Cambios_rol = contador_global (colmena S) Cambios_rol + 1"
    by blast
  with a b c show ?thesis by simp
qed

lemma escenario_C_1:
  "dd_get (abejas_por_rol (colmena sistema_escenario_C)) ''recolectora'' = 4"
  "dd_get (abejas_por_rol (colmena sistema_escenario_C)) ''almacenadora'' = 1"
  "dd_get (abejas_por_rol (colmena sistema_escenario_C)) ''nodriza'' = 1"
  "dd_get (abejas_por_rol (colmena sistema_escenario_C)) ''defensora'' = 1"
  "sum_list (map snd (abejas_por_rol (colmena sistema_escenario_C))) = 7"
  "equilibrio_ideal (reina sistema_escenario_C) = equilibrio_por_defecto"
  "list_all (\<lambda>(i, ref). ref < length (obreras sistema_escenario_C))
     (abejas_activas (reina sistema_escenario_C))"
  "list_ex (\<lambda>(i, ref). rol (obreras sistema_escenario_C ! ref) = ''recolectora'')
     (abejas_activas (reina sistema_escenario_C))"
  by code_simp+

lemma escenario_C_2:
  "abejas_por_rol (colmena sistema_escenario_C) =
     [(''recolectora'', 4), (''almacenadora'', 1), (''nodriza'', 1), (''defensora'', 1)]"
  by code_simp

theorem escenario_C_witness:
  "dd_get (abejas_por_rol (colmena sistema_escenario_C)) ''recolectora'' = 4 \<and>
   dd_get (abejas_por_rol (colmena sistema_escenario_C)) ''almacenadora'' = 1 \<and>
   dd_get (abejas_por_rol (colmena sistema_escenario_C)) ''nodriza'' = 1 \<and>
   dd_get (abejas_por_rol (colmena sistema_escenario_C)) ''defensora'' = 1 \<and>
   sum_list (map snd (abejas_por_rol (colmena sistema_escenario_C))) = 7 \<and>
   equilibrio_ideal (reina sistema_escenario_C) = equilibrio_por_defecto \<and>
   list_all (\<lambda>(i, ref). ref < length (obreras sistema_escenario_C))
     (abejas_activas (reina sistema_escenario_C)) \<and>
   list_ex (\<lambda>(i, ref). rol (obreras sistema_escenario_C ! ref) = ''recolectora'')
     (abejas_activas (reina sistema_escenario_C)) \<and>
   identificar_desequilibrio sistema_escenario_C = Inr (Some ''recolectora'', Some ''almacenadora'') \<and>
   (\<exists>S'. reasignar_roles sistema_escenario_C = Inr (True, S') \<and>
      abejas_por_rol (colmena S') =
        [(''recolectora'', 3), (''almacenadora'', 2), (''nodriza'', 1), (''defensora'', 1)])"
proof -
  from escenario_C [OF escenario_C_1]
  obtain S' where "identificar_desequilibrio sistema_escenario_C =
      Inr (Some ''recolectora'', Some ''almacenadora'')"
    and "reasignar_roles sistema_escenario_C = Inr (True, S')"
    and "abejas_por_rol (colmena S') =
      dd_sumar (dd_sumar (abejas_por_rol (colmena sistema_escenario_C)) ''recolectora'' (- 1))
        ''almacenadora'' 1"
    by blast
  then have "identificar_desequilibrio sistema_escenario_C =
      Inr (Some ''recolectora'', Some ''almacenadora'') \<and>
    (\<exists>S'. reasignar_roles sistema_escenario_C = Inr (True, S') \<and>
      abejas_por_rol (colmena S') =
        [(''recolectora'', 3), (''almacenadora'', 2), (''nodriza'', 1), (''defensora'', 1)])"
    by (simp add: escenario_C_2)
  with escenario_C_1 show ?thesis
    by blast
qed

text \<open>The same population as \<open>main\<close> builds it: the queen is in the census, the ideal numbers
  are those of 8 bees, and the outcome is the same.\<close>

lemma lanzar_abejas_campos:
  "colmena (lanzar_abejas bs S) =
     (colmena S)\<lparr>abejas_por_rol :=
        foldl (\<lambda>d b. dd_sumar d (rol_de (fst b)) 1) (abejas_por_rol (colmena S)) bs\<rparr> \<and>
   obreras (lanzar_abejas bs S) = obreras S @ map (\<lambda>b. nueva_obrera (fst b) (snd b)) bs \<and>
   reina (lanzar_abejas bs S) =
     (reina S)\<lparr>abejas_activas :=
        foldl (\<lambda>r nb. dict_poner r (snd (snd nb)) (fst nb)) (abejas_activas (reina S))
          (enumerate (length (obreras S)) bs)\<rparr>"
proof (induction bs arbitrary: S)
  case Nil
  show ?case by simp
next
  case (Cons b bs)
  obtain c i where b: "b = (c, i)" by (cases b)
  let ?S1 = "agregar_abeja (length (obreras S)) (snd (construir c i S))"
  have 1: "colmena ?S1 = (colmena S)\<lparr>abejas_por_rol := dd_sumar (abejas_por_rol (colmena S)) (rol_de c) 1\<rparr>"
    "obreras ?S1 = obreras S @ [nueva_obrera c i]"
    "reina ?S1 = (reina S)\<lparr>abejas_activas := dict_poner (abejas_activas (reina S)) i (length (obreras S))\<rparr>"
    by (simp_all add: agregar_abeja_def construir_def registrar_abeja_def nueva_obrera_def)
  have 2: "lanzar_abejas (b # bs) S = lanzar_abejas bs ?S1"
    by (simp add: b construir_def)
  show ?case
    unfolding 2 using Cons.IH [of ?S1]
    by (simp add: b agregar_abeja_def construir_def registrar_abeja_def nueva_obrera_def)
qed

lemma poblado_C_explicito:
  "sistema_poblado_C =
     \<lparr> colmena = (colmena_nueva 100 5 20)\<lparr>abejas_por_rol :=
         [(''reina'', 1), (''almacenadora'', 1), (''recolectora'', 4), (''nodriza'', 1),
          (''defensora'', 1)]\<rparr>,
       obreras =
         [nueva_obrera Almacenadora ''a1'', nueva_obrera Recolectora ''r1'',
          nueva_obrera Recolectora ''r2'', nueva_obrera Recolectora ''r3'',
          nueva_obrera Recolectora ''r4'', nueva_obrera Nodriza ''n1'',
          nueva_obrera Defensora ''d1''],
       reina = \<lparr> id_abeja = ''q1'', rol = ''reina'', activa = True, viva = True,
                 equilibrio_ideal = equilibrio_por_defecto,
                 abejas_activas =
                   [(''a1'', 0), (''r1'', 1), (''r2'', 2), (''r3'', 3), (''r4'', 4),
                    (''n1'', 5), (''d1'', 6)] \<rparr> \<rparr>"
  by (rule sistema.equality)
    (simp_all add: sistema_poblado_C_def lanzar_abejas_campos sistema_inicial_def Reina_init_def
      registrar_abeja_def colmena_nueva_def del: lanzar_abejas.simps)

lemma escenario_C_con_reina:
  "sistema_poblado_C \<in> sistemas \<and>
   abejas_por_rol (colmena sistema_poblado_C) =
     [(''reina'', 1), (''almacenadora'', 1), (''recolectora'', 4), (''nodriza'', 1), (''defensora'', 1)] \<and>
   identificar_desequilibrio sistema_poblado_C = Inr (Some ''recolectora'', Some ''almacenadora'') \<and>
   map_sum id (\<lambda>(b, S'). (b, abejas_por_rol (colmena S'), map rol (obreras S')))
       (reasignar_roles sistema_poblado_C) =
     Inr (True,
          [(''reina'', 1), (''almacenadora'', 2), (''recolectora'', 3), (''nodriza'', 1), (''defensora'', 1)],
          [''almacenadora'', ''almacenadora'', ''recolectora'', ''recolectora'', ''recolectora'',
           ''nodriza'', ''defensora''])"
proof -
  have "sistema_poblado_C \<in> sistemas"
    unfolding sistema_poblado_C_def by (intro lanzar_abejas_sistemas sistema_inicial_sistemas)
  moreover have "abejas_por_rol (colmena sistema_poblado_C) =
     [(''reina'', 1), (''almacenadora'', 1), (''recolectora'', 4), (''nodriza'', 1), (''defensora'', 1)]"
    unfolding poblado_C_explicito by simp
  moreover have "identificar_desequilibrio sistema_poblado_C =
      Inr (Some ''recolectora'', Some ''almacenadora'')"
    unfolding poblado_C_explicito by code_simp
  moreover have "map_sum id (\<lambda>(b, S'). (b, abejas_por_rol (colmena S'), map rol (obreras S')))
       (reasignar_roles sistema_poblado_C) =
     Inr (True,
          [(''reina'', 1), (''almacenadora'', 2), (''recolectora'', 3), (''nodriza'', 1), (''defensora'', 1)],
          [''almacenadora'', ''almacenadora'', ''recolectora'', ''recolectora'', ''recolectora'',
           ''nodriza'', ''defensora''])"
    unfolding poblado_C_explicito by code_simp
  ultimately show ?thesis by simp
qed

end
